theory Spec2Isabelle
  imports Complex_Main "HOL-Library.AList"
begin

section \<open>Tables\<close>

text \<open>
  The charts of \<^verbatim>\<open>refactor_charts.py\<close> work on a pandas DataFrame. A column has one
  dtype, and whether an entry is present is part of its value: a numeric column holds
  numbers or NaN, a \<^verbatim>\<open>datetime64[ns]\<close> column holds nanoseconds since the epoch or NaT,
  an object column holds strings or NaN. Numbers are exact rationals: rounding of
  floating point arithmetic is outside this development. The index of a frame is a
  column as well; \<^verbatim>\<open>reset_index\<close> and \<^verbatim>\<open>set_index\<close> move it in and out of the
  columns. The name of the index is not recorded, and a column label is a string or
  an integer.
\<close>

datatype label = StrLabel string | IntLabel int

datatype column =
    NumCol "rat option list"
  | TimeCol "int option list"
  | ObjCol "string option list"

datatype scalar =
    Num "rat option"
  | Time "int option"
  | Obj "string option"

record dataframe =
  index :: column
  columns :: "(label \<times> column) list"

datatype error =
    ColumnNotFound label
  | NoNumericData
  | PeriodLabelKeys
  | SizeNotPresent string
  | IndexError
  | KeyError
  | AttributeError
  | TypeError
  | ValueError
  | NotImplementedError

text \<open>
  The first four errors are the exceptions the charts raise themselves:
  the two \<^verbatim>\<open>Exception\<close>s of \<^verbatim>\<open>get_data_cols\<close>, the \<^verbatim>\<open>ValueError\<close> of
  \<^verbatim>\<open>get_period_label\<close> and the \<^verbatim>\<open>ValueError\<close> of \<^verbatim>\<open>plot_point\<close>. The others are
  raised by Python, pandas or matplotlib underneath.
\<close>

fun col_len :: "column \<Rightarrow> nat" where
  "col_len (NumCol xs) = length xs"
| "col_len (TimeCol xs) = length xs"
| "col_len (ObjCol xs) = length xs"

fun is_numeric :: "column \<Rightarrow> bool" where
  "is_numeric (NumCol xs) = True"
| "is_numeric (TimeCol xs) = False"
| "is_numeric (ObjCol xs) = False"

fun is_object :: "column \<Rightarrow> bool" where
  "is_object (NumCol xs) = False"
| "is_object (TimeCol xs) = False"
| "is_object (ObjCol xs) = True"

fun is_missing :: "'a option \<Rightarrow> bool" where
  "is_missing None = True"
| "is_missing (Some x) = False"

fun has_missing :: "column \<Rightarrow> bool" where
  "has_missing (NumCol xs) = list_ex is_missing xs"
| "has_missing (TimeCol xs) = list_ex is_missing xs"
| "has_missing (ObjCol xs) = list_ex is_missing xs"

definition nrows :: "dataframe \<Rightarrow> nat" where
  "nrows df = col_len (index df)"

definition labels :: "dataframe \<Rightarrow> label list" where
  "labels df = map fst (columns df)"

text \<open>\<^verbatim>\<open>column.iloc[i]\<close> and \<^verbatim>\<open>index[i]\<close> for \<open>i \<ge> 0\<close>: IndexError out of range.\<close>

fun iloc :: "column \<Rightarrow> nat \<Rightarrow> error + scalar" where
  "iloc (NumCol xs) i = (if i < length xs then Inr (Num (xs ! i)) else Inl IndexError)"
| "iloc (TimeCol xs) i = (if i < length xs then Inr (Time (xs ! i)) else Inl IndexError)"
| "iloc (ObjCol xs) i = (if i < length xs then Inr (Obj (xs ! i)) else Inl IndexError)"

text \<open>
  \<^verbatim>\<open>df[col]\<close>: a KeyError when no column has the label, the column (a Series) when
  exactly one has it, and a frame of all the columns with that label otherwise.
\<close>

datatype selection = Series column | SubFrame "column list"

definition getitem :: "dataframe \<Rightarrow> label \<Rightarrow> error + selection" where
  "getitem df col =
     (case map snd (filter (\<lambda>lc. fst lc = col) (columns df)) of
        [] \<Rightarrow> Inl KeyError
      | [c] \<Rightarrow> Inr (Series c)
      | cs \<Rightarrow> Inr (SubFrame cs))"

section \<open>Column Selector: \<^verbatim>\<open>get_data_cols\<close>\<close>

text \<open>Python's \<^verbatim>\<open>str\<close> on a label: a string is itself, an integer is printed in decimal.\<close>

fun str_nat :: "nat \<Rightarrow> string" where
  "str_nat n = (if n < 10 then [''0123456789'' ! n]
                else str_nat (n div 10) @ [''0123456789'' ! (n mod 10)])"

declare str_nat.simps [simp del]

fun str :: "label \<Rightarrow> string" where
  "str (StrLabel s) = s"
| "str (IntLabel i) = (if i < 0 then CHR ''-'' # str_nat (nat (- i)) else str_nat (nat i))"

text \<open>
  \<^verbatim>\<open>np.issubdtype(df[col].dtype, np.number)\<close>: a Series has a dtype; a frame (the
  label is shared by several columns) has no attribute \<^verbatim>\<open>dtype\<close>.
\<close>

fun issubdtype_number :: "selection \<Rightarrow> error + bool" where
  "issubdtype_number (Series c) = Inr (is_numeric c)"
| "issubdtype_number (SubFrame cs) = Inl AttributeError"

text \<open>The loop of lines 195-202, over the labels still to visit, with \<^verbatim>\<open>data_cols\<close> so far.\<close>

fun data_cols_loop :: "dataframe \<Rightarrow> label list \<Rightarrow> label list \<Rightarrow> error + label list" where
  "data_cols_loop df [] data_cols = Inr data_cols"
| "data_cols_loop df (col # rest) data_cols =
     (if col \<notin> set (labels df) then Inl (ColumnNotFound col)
      else case getitem df col of
             Inl e \<Rightarrow> Inl e
           | Inr sel \<Rightarrow>
               (case issubdtype_number sel of
                  Inl e \<Rightarrow> Inl e
                | Inr True \<Rightarrow> data_cols_loop df rest (data_cols @ [col])
                | Inr False \<Rightarrow> data_cols_loop df rest data_cols))"

definition get_data_cols :: "dataframe \<Rightarrow> error + string list" where
  "get_data_cols df =
     (case data_cols_loop df (labels df) [] of
        Inl e \<Rightarrow> Inl e
      | Inr data_cols \<Rightarrow>
          if data_cols = [] then Inl NoNumericData
          else Inr (map str data_cols))"

text \<open>
  \<^verbatim>\<open>rename_data_columns\<close> renames with the dictionary \<^verbatim>\<open>{col: str(col)}\<close> over the
  result of \<^verbatim>\<open>get_data_cols\<close>, whose entries are strings already: every key is
  mapped to itself, and a label that is not a string is not a key.
\<close>

definition rename_data_columns :: "dataframe \<Rightarrow> error + dataframe" where
  "rename_data_columns df =
     (case get_data_cols df of
        Inl e \<Rightarrow> Inl e
      | Inr data_cols \<Rightarrow>
          Inr (df\<lparr>columns :=
                 map (\<lambda>(l, c). (case map_of (map (\<lambda>col. (StrLabel col, StrLabel (str (StrLabel col)))) data_cols) l of
                                   None \<Rightarrow> l | Some l' \<Rightarrow> l', c))
                     (columns df)\<rparr>))"

section \<open>Frame Interpolator: \<^verbatim>\<open>get_interpolated_df\<close>\<close>

text \<open>
  \<^verbatim>\<open>reindex\<close>: the row at the new label \<open>p\<close> is the row that had label \<open>p\<close>, and a
  row of missing values when there was none.
\<close>

definition reindex_vals :: "nat list \<Rightarrow> nat list \<Rightarrow> 'a option list \<Rightarrow> 'a option list" where
  "reindex_vals old_index new_index xs =
     map (\<lambda>p. case map_of (zip old_index xs) p of None \<Rightarrow> None | Some v \<Rightarrow> v) new_index"

fun reindex_col :: "nat list \<Rightarrow> nat list \<Rightarrow> column \<Rightarrow> column" where
  "reindex_col old_index new_index (NumCol xs) = NumCol (reindex_vals old_index new_index xs)"
| "reindex_col old_index new_index (TimeCol xs) = TimeCol (reindex_vals old_index new_index xs)"
| "reindex_col old_index new_index (ObjCol xs) = ObjCol (reindex_vals old_index new_index xs)"

text \<open>\<^verbatim>\<open>fillna(method="ffill")\<close>: a missing value takes the last value present before it.\<close>

fun ffill :: "'a option \<Rightarrow> 'a option list \<Rightarrow> 'a option list" where
  "ffill prev [] = []"
| "ffill prev (Some x # xs) = Some x # ffill (Some x) xs"
| "ffill prev (None # xs) = prev # ffill prev xs"

fun ffill_col :: "column \<Rightarrow> column" where
  "ffill_col (NumCol xs) = NumCol (ffill None xs)"
| "ffill_col (TimeCol xs) = TimeCol (ffill None xs)"
| "ffill_col (ObjCol xs) = ObjCol (ffill None xs)"

text \<open>
  \<^verbatim>\<open>interpolate\<close> with its default limits, on one column: pandas calls
  \<^verbatim>\<open>np.interp\<close> at the missing entries, with the present entries as the known points.
  The abscissae are the positions 0, 1, 2, ... for \<^verbatim>\<open>method="linear"\<close> and the index
  values for \<^verbatim>\<open>method="time"\<close>. Missing entries before the first present one stay
  missing, those after the last present one take its value. \<open>interp\<close> walks the
  column with the last known point; it is what \<^verbatim>\<open>np.interp\<close> computes, without the
  rounding, when the abscissae increase strictly.
\<close>

fun next_valid :: "(rat \<times> rat option) list \<Rightarrow> (rat \<times> rat) option" where
  "next_valid [] = None"
| "next_valid ((x, Some y) # ps) = Some (x, y)"
| "next_valid ((x, None) # ps) = next_valid ps"

definition np_interp :: "rat \<Rightarrow> rat \<Rightarrow> rat \<Rightarrow> rat \<Rightarrow> rat \<Rightarrow> rat" where
  "np_interp x0 y0 x1 y1 x = (y1 - y0) / (x1 - x0) * (x - x0) + y0"

fun interp :: "(rat \<times> rat) option \<Rightarrow> (rat \<times> rat option) list \<Rightarrow> rat option list" where
  "interp prev [] = []"
| "interp prev ((x, Some y) # ps) = Some y # interp (Some (x, y)) ps"
| "interp None ((x, None) # ps) = None # interp None ps"
| "interp (Some (x0, y0)) ((x, None) # ps) =
     (case next_valid ps of
        None \<Rightarrow> Some y0
      | Some (x1, y1) \<Rightarrow> Some (np_interp x0 y0 x1 y1 x)) # interp (Some (x0, y0)) ps"

definition interpolate_linear :: "rat option list \<Rightarrow> rat option list" where
  "interpolate_linear ys = interp None (zip (map of_nat [0..<length ys]) ys)"

fun interp_col :: "rat list \<Rightarrow> column \<Rightarrow> column" where
  "interp_col xs (NumCol ys) = NumCol (interp None (zip xs ys))"
| "interp_col xs (TimeCol ys) = TimeCol ys"
| "interp_col xs (ObjCol ys) = ObjCol ys"

text \<open>A numeric column that has both present and missing entries is one pandas interpolates.\<close>

fun needs_interp :: "column \<Rightarrow> bool" where
  "needs_interp (NumCol ys) = (list_ex is_missing ys \<and> list_ex (\<lambda>y. \<not> is_missing y) ys)"
| "needs_interp (TimeCol ys) = False"
| "needs_interp (ObjCol ys) = False"

text \<open>
  \<^verbatim>\<open>pd.date_range(first, last, periods=n)\<close>: \<open>n\<close> evenly spaced timestamps from
  \<open>first\<close> to \<open>last\<close>, both included, each truncated to a whole nanosecond
  (\<^verbatim>\<open>np.linspace\<close> on the difference, here without its rounding).
\<close>

definition trunc_div :: "int \<Rightarrow> int \<Rightarrow> int" where
  "trunc_div a b = (if 0 \<le> a then a div b else - ((- a) div b))"

definition date_range :: "int \<Rightarrow> int \<Rightarrow> nat \<Rightarrow> int list" where
  "date_range first lst periods =
     (if periods \<le> 1 then replicate periods first
      else map (\<lambda>i. first + trunc_div (int i * (lst - first)) (int periods - 1)) [0..<periods])"

text \<open>
  Lines 231-241, on column 0 of the reindexed frame (the former index).
  \<^verbatim>\<open>date_range\<close> refuses a NaT end point with a ValueError, and
  \<^verbatim>\<open>Series.interpolate\<close> leaves a column of object dtype as it is.
\<close>

fun fill_period :: "bool \<Rightarrow> column \<Rightarrow> error + column" where
  "fill_period True (TimeCol ts) =
     (case ts of
        [] \<Rightarrow> Inl IndexError
      | t # ts' \<Rightarrow>
          (case (t, last ts) of
             (Some first, Some lst) \<Rightarrow> Inr (TimeCol (map Some (date_range first lst (length ts))))
           | _ \<Rightarrow> Inl ValueError))"
| "fill_period True (NumCol xs) = Inr (NumCol (interpolate_linear xs))"
| "fill_period True (ObjCol xs) = Inr (ObjCol xs)"
| "fill_period False c = Inr (ffill_col c)"

text \<open>
  Lines 245-248, \<^verbatim>\<open>DataFrame.interpolate\<close> on the frame whose index is the filled
  period column. pandas refuses a frame whose columns are all of object dtype
  (TypeError). With \<^verbatim>\<open>method="time"\<close> it refuses an index with missing values
  (NotImplementedError), and a column to interpolate over an index that is not a
  datetime index (ValueError: time-weighted interpolation only works with a
  DatetimeIndex); the pandas releases of the time of the code pass over a column with
  nothing to interpolate before that test. Columns that are not numeric are returned
  as they are. On a datetime index no value is missing where the timestamps are read.
\<close>

definition interpolate_frame :: "bool \<Rightarrow> dataframe \<Rightarrow> error + dataframe" where
  "interpolate_frame interpolate_period fr =
     (if columns fr \<noteq> [] \<and> list_all is_object (map snd (columns fr)) then Inl TypeError
      else if interpolate_period then
        (if has_missing (index fr) then Inl NotImplementedError
         else case index fr of
                TimeCol ts \<Rightarrow>
                  Inr (fr\<lparr>columns :=
                         map (\<lambda>(l, c). (l, interp_col (map (\<lambda>t. case t of None \<Rightarrow> 0 | Some v \<Rightarrow> of_int v) ts) c))
                             (columns fr)\<rparr>)
              | _ \<Rightarrow>
                  if list_ex needs_interp (map snd (columns fr)) then Inl ValueError
                  else Inr fr)
      else Inr (fr\<lparr>columns :=
                  map (\<lambda>(l, c). (l, interp_col (map of_nat [0..<nrows fr]) c)) (columns fr)\<rparr>))"

text \<open>
  \<^verbatim>\<open>get_interpolated_df\<close>. After \<^verbatim>\<open>reset_index\<close> the rows are labelled
  \<open>0, ..., N - 1\<close> and the former index is column 0. \<^verbatim>\<open>index[-1]\<close> of an empty frame
  is an IndexError, and \<^verbatim>\<open>reindex\<close> refuses labels that repeat (ValueError), which
  happens only for \<open>steps_per_period = 0\<close>. The step count is a natural number: the
  configuration asks for a positive integer.
\<close>

definition get_interpolated_df :: "dataframe \<Rightarrow> nat \<Rightarrow> bool \<Rightarrow> error + dataframe" where
  "get_interpolated_df df steps_per_period interpolate_period =
     (let period = index df;
          old_index = map (\<lambda>k. k * steps_per_period) [0..<col_len period]
      in if old_index = [] then Inl IndexError
         else
           let new_index = [0..<last old_index + 1]
           in if \<not> distinct old_index then Inl ValueError
              else
                (case fill_period interpolate_period (reindex_col old_index new_index period) of
                   Inl e \<Rightarrow> Inl e
                 | Inr period' \<Rightarrow>
                     interpolate_frame interpolate_period
                       \<lparr>index = period',
                        columns = map (\<lambda>(l, c). (l, reindex_col old_index new_index c)) (columns df)\<rparr>))"

section \<open>Axes and charts\<close>

text \<open>
  What the charts read and write of a matplotlib \<^verbatim>\<open>Axes\<close>: the two views (unset until
  \<^verbatim>\<open>set_xlim\<close> and \<^verbatim>\<open>set_ylim\<close> are called; the x view in nanoseconds, as only
  timestamps reach it), the list \<^verbatim>\<open>ax.texts\<close>, and the calls of \<^verbatim>\<open>ax.plot\<close> and
  \<^verbatim>\<open>ax.scatter\<close> whose artists are on the axes. The text of an annotation is kept as
  the formatting call that made it: \<^verbatim>\<open>idx_val.strftime(period_fmt)\<close>,
  \<^verbatim>\<open>period_fmt.format(x=idx_val)\<close> or \<^verbatim>\<open>str\<close> of the index value.
\<close>

datatype style_val = SNum rat | SStr string

datatype period_label_arg = PLBool bool | PLDict "(string \<times> style_val) list"

datatype period_text =
    Strftime string int
  | Format string scalar
  | AsStr scalar

record text_artist =
  text_s :: period_text
  text_kwargs :: "(string \<times> style_val) list"

datatype size_arg = SizeInt int | SizeStr string

record plot_call =
  plot_x :: "scalar list"
  plot_y :: "scalar list"
  plot_width :: nat
  plot_color :: "string option"

record scatter_call =
  scatter_x :: "scalar list"
  scatter_y :: "scalar list"
  scatter_s :: "scalar option"
  scatter_color :: "string option"

record axes =
  xlim :: "(int \<times> int) option"
  ylim :: "(rat \<times> rat) option"
  texts :: "text_artist list"
  lines :: "plot_call list"
  collections :: "scatter_call list"
  ax_title :: "string option"

definition new_axes :: axes where
  "new_axes = \<lparr>xlim = None, ylim = None, texts = [], lines = [], collections = [], ax_title = None\<rparr>"

text \<open>
  The attributes of \<^verbatim>\<open>_BaseChart\<close> the animation uses. \<open>colors\<close> is the list
  \<^verbatim>\<open>get_colors(cmap)\<close> resolved to; resolving a colour specification against
  matplotlib's palettes is outside this development (\<^verbatim>\<open>line_colors\<close> of the line
  chart is the same list, resolved a second time). \<open>xy\<close> is the dictionary
  \<^verbatim>\<open>_lines\<close> or \<^verbatim>\<open>_points\<close> of the two chart classes: per data column the lists
  \<^verbatim>\<open>"x"\<close> and \<^verbatim>\<open>"y"\<close>.
\<close>

record base_chart =
  df :: dataframe
  interpolate_period :: bool
  steps_per_period :: nat
  period_fmt :: "string option"
  chart_title :: "string option"
  colors :: "string list"
  period_label :: period_label_arg
  data_cols :: "string list"
  ax :: axes
  xy :: "(string \<times> scalar list \<times> scalar list) list"

record line_chart = base_chart +
  line_width :: nat

record scatter_chart = base_chart +
  size_arg :: size_arg
  point_size :: "(string \<times> scalar) list"

text \<open>An exception leaves the chart as it was when it was raised: a step returns both.\<close>

type_synonym 'c outcome = "error option \<times> 'c"

subsection \<open>Period label: \<^verbatim>\<open>get_period_label\<close>\<close>

text \<open>Python's truth value: \<^verbatim>\<open>False\<close> and the empty dictionary are falsy.\<close>

fun truthy :: "period_label_arg \<Rightarrow> bool" where
  "truthy (PLBool b) = b"
| "truthy (PLDict d) = (d \<noteq> [])"

definition default_period_label :: "(string \<times> style_val) list" where
  "default_period_label =
     [(''size'', SNum 12), (''x'', SNum (9 / 10)), (''y'', SNum (1 / 10)), (''ha'', SStr ''right'')]"

definition get_period_label :: "period_label_arg \<Rightarrow> error + period_label_arg" where
  "get_period_label pl =
     (if \<not> truthy pl then Inr (PLBool False)
      else if pl = PLBool True then Inr (PLDict default_period_label)
      else (case pl of
              PLDict d \<Rightarrow>
                if ''x'' \<notin> set (map fst d) \<or> ''y'' \<notin> set (map fst d) then Inl PeriodLabelKeys
                else Inr pl
            | PLBool b \<Rightarrow> Inl TypeError))"

subsection \<open>Axis Scaler: \<^verbatim>\<open>set_x_y_limits\<close>\<close>

fun present :: "'a option list \<Rightarrow> 'a list" where
  "present [] = []"
| "present (None # xs) = present xs"
| "present (Some x # xs) = x # present xs"

text \<open>\<^verbatim>\<open>min\<close> and \<^verbatim>\<open>max\<close> that skip missing values; missing when nothing is present.\<close>

definition min_skipna :: "('a::linorder) option list \<Rightarrow> 'a option" where
  "min_skipna xs = (case present xs of [] \<Rightarrow> None | v # vs \<Rightarrow> Some (fold min vs v))"

definition max_skipna :: "('a::linorder) option list \<Rightarrow> 'a option" where
  "max_skipna xs = (case present xs of [] \<Rightarrow> None | v # vs \<Rightarrow> Some (fold max vs v))"

text \<open>\<^verbatim>\<open>df.iloc[:i + 1].select_dtypes(include=[np.number])\<close>: the numeric columns, cut.\<close>

fun numeric_values :: "column \<Rightarrow> rat option list option" where
  "numeric_values (NumCol ys) = Some ys"
| "numeric_values (TimeCol ys) = None"
| "numeric_values (ObjCol ys) = None"

definition select_numeric :: "dataframe \<Rightarrow> nat \<Rightarrow> rat option list list" where
  "select_numeric d i = map (take (i + 1)) (List.map_filter (\<lambda>lc. numeric_values (snd lc)) (columns d))"

text \<open>
  Line 165 adds \<^verbatim>\<open>pd.Timedelta(seconds=1)\<close> to the largest index value: one second
  on a timestamp, NaT on NaT, and a TypeError on a number or a string. matplotlib
  refuses a view limit that is NaT or NaN (ValueError).
\<close>

definition one_second :: int where
  "one_second = 1000000000"

definition set_x_y_limits :: "'a base_chart_scheme \<Rightarrow> nat \<Rightarrow> ('a base_chart_scheme) outcome" where
  "set_x_y_limits c i =
     (case index (df c) of
        TimeCol ts \<Rightarrow>
          (case (min_skipna (take (i + 1) ts), max_skipna (take (i + 1) ts)) of
             (Some xlim_start, Some xlim_max) \<Rightarrow>
               (let c1 = c\<lparr>ax := (ax c)\<lparr>xlim := Some (xlim_start, xlim_max + one_second)\<rparr>\<rparr>
                in case (min_skipna (map min_skipna (select_numeric (df c) i)),
                         max_skipna (map max_skipna (select_numeric (df c) i))) of
                     (Some lo, Some hi) \<Rightarrow> (None, c1\<lparr>ax := (ax c1)\<lparr>ylim := Some (lo, hi)\<rparr>\<rparr>)
                   | _ \<Rightarrow> (Some ValueError, c1))
           | _ \<Rightarrow> (Some ValueError, c))
      | NumCol xs \<Rightarrow> (Some TypeError, c)
      | ObjCol xs \<Rightarrow> (Some TypeError, c))"

subsection \<open>Period Annotator: \<^verbatim>\<open>show_period\<close>\<close>

text \<open>The truth value of an optional string: \<^verbatim>\<open>None\<close> and the empty string are falsy.\<close>

fun truthy_str :: "string option \<Rightarrow> bool" where
  "truthy_str None = False"
| "truthy_str (Some s) = (s \<noteq> [])"

fun is_datetime :: "column \<Rightarrow> bool" where
  "is_datetime (NumCol xs) = False"
| "is_datetime (TimeCol xs) = True"
| "is_datetime (ObjCol xs) = False"

text \<open>Lines 370-377: the string \<open>s\<close>. \<^verbatim>\<open>NaT.strftime\<close> raises a ValueError.\<close>

definition period_string :: "'a base_chart_scheme \<Rightarrow> nat \<Rightarrow> error + period_text" where
  "period_string c i =
     (case period_fmt c of
        Some fmt \<Rightarrow>
          (if fmt \<noteq> [] then
             (case iloc (index (df c)) i of
                Inl e \<Rightarrow> Inl e
              | Inr idx_val \<Rightarrow>
                  if is_datetime (index (df c)) then
                    (case idx_val of
                       Time (Some t) \<Rightarrow> Inr (Strftime fmt t)
                     | _ \<Rightarrow> Inl ValueError)
                  else Inr (Format fmt idx_val))
           else (case iloc (index (df c)) i of Inl e \<Rightarrow> Inl e | Inr v \<Rightarrow> Inr (AsStr v)))
      | None \<Rightarrow> (case iloc (index (df c)) i of Inl e \<Rightarrow> Inl e | Inr v \<Rightarrow> Inr (AsStr v)))"

definition show_period :: "'a base_chart_scheme \<Rightarrow> nat \<Rightarrow> ('a base_chart_scheme) outcome" where
  "show_period c i =
     (if truthy (period_label c) then
        (case period_string c i of
           Inl e \<Rightarrow> (Some e, c)
         | Inr s \<Rightarrow>
             (let num_texts = length (texts (ax c))
              in if num_texts = 0 then
                   (case get_period_label (period_label c) of
                      Inl e \<Rightarrow> (Some e, c)
                    | Inr (PLBool b) \<Rightarrow> (Some TypeError, c)
                    | Inr (PLDict kwargs) \<Rightarrow>
                        (None, c\<lparr>ax := (ax c)\<lparr>texts := texts (ax c) @ [\<lparr>text_s = s, text_kwargs = kwargs\<rparr>]\<rparr>\<rparr>))
                 else (None, c\<lparr>ax := (ax c)\<lparr>texts := (texts (ax c))[0 := (texts (ax c) ! 0)\<lparr>text_s := s\<rparr>]\<rparr>\<rparr>)))
      else (None, c))"

subsection \<open>Frame Renderer: \<^verbatim>\<open>plot_line\<close> and \<^verbatim>\<open>plot_point\<close>\<close>

text \<open>
  One round of the loop over \<^verbatim>\<open>zip(self.data_cols, self.colors)\<close>. Both renderers
  start it with the same two statements, which append the frame's index value and the
  column's value to the lists of the column. A name that is no key of the dictionary
  or no label of the table is a KeyError. A name that several columns carry selects
  a frame, whose row cannot be drawn; construction has refused such a table before.
\<close>

definition append_xy :: "'a base_chart_scheme \<Rightarrow> nat \<Rightarrow> string \<Rightarrow> ('a base_chart_scheme) outcome" where
  "append_xy c i name =
     (case map_of (xy c) name of
        None \<Rightarrow> (Some KeyError, c)
      | Some (xs, ys) \<Rightarrow>
          (case getitem (df c) (StrLabel name) of
             Inl e \<Rightarrow> (Some e, c)
           | Inr (SubFrame cs) \<Rightarrow> (Some ValueError, c)
           | Inr (Series col) \<Rightarrow>
               (case iloc (index (df c)) i of
                  Inl e \<Rightarrow> (Some e, c)
                | Inr x \<Rightarrow>
                    (let c1 = c\<lparr>xy := AList.update name (xs @ [x], ys) (xy c)\<rparr>
                     in case iloc col i of
                          Inl e \<Rightarrow> (Some e, c1)
                        | Inr y \<Rightarrow> (None, c1\<lparr>xy := AList.update name (xs @ [x], ys @ [y]) (xy c1)\<rparr>)))))"

definition xy_of :: "'a base_chart_scheme \<Rightarrow> string \<Rightarrow> scalar list \<times> scalar list" where
  "xy_of c name = (case map_of (xy c) name of None \<Rightarrow> ([], []) | Some p \<Rightarrow> p)"

fun plot_line_loop :: "line_chart \<Rightarrow> nat \<Rightarrow> (string \<times> string) list \<Rightarrow> line_chart outcome" where
  "plot_line_loop c i [] = (None, c)"
| "plot_line_loop c i ((name, color) # rest) =
     (case append_xy c i name of
        (Some e, c1) \<Rightarrow> (Some e, c1)
      | (None, c1) \<Rightarrow>
          plot_line_loop
            (c1\<lparr>ax := (ax c1)\<lparr>lines := lines (ax c1) @
                 [\<lparr>plot_x = fst (xy_of c1 name), plot_y = snd (xy_of c1 name),
                   plot_width = line_width c1, plot_color = Some color\<rparr>]\<rparr>\<rparr>)
            i rest)"

definition plot_line :: "line_chart \<Rightarrow> nat \<Rightarrow> line_chart outcome" where
  "plot_line c i =
     (case set_x_y_limits c i of
        (Some e, c1) \<Rightarrow> (Some e, c1)
      | (None, c1) \<Rightarrow> plot_line_loop c1 i (zip (data_cols c1) (colors c1)))"

text \<open>Lines 435-440: the marker size of the round.\<close>

definition size_value :: "scatter_chart \<Rightarrow> nat \<Rightarrow> error + scalar" where
  "size_value c i =
     (case size_arg c of
        SizeStr sz \<Rightarrow>
          if sz \<notin> set (data_cols c) then Inl (SizeNotPresent sz)
          else (case getitem (df c) (StrLabel sz) of
                  Inl e \<Rightarrow> Inl e
                | Inr (SubFrame cs) \<Rightarrow> Inl ValueError
                | Inr (Series col) \<Rightarrow> iloc col i)
      | SizeInt n \<Rightarrow> Inr (Num (Some (of_int n))))"

fun plot_point_loop :: "scatter_chart \<Rightarrow> nat \<Rightarrow> (string \<times> string) list \<Rightarrow> scatter_chart outcome" where
  "plot_point_loop c i [] = (None, c)"
| "plot_point_loop c i ((name, color) # rest) =
     (case append_xy c i name of
        (Some e, c1) \<Rightarrow> (Some e, c1)
      | (None, c1) \<Rightarrow>
          (case size_value c1 i of
             Inl e \<Rightarrow> (Some e, c1)
           | Inr s \<Rightarrow>
               plot_point_loop
                 (c1\<lparr>point_size := AList.update name s (point_size c1),
                     ax := (ax c1)\<lparr>collections := collections (ax c1) @
                       [\<lparr>scatter_x = fst (xy_of c1 name), scatter_y = snd (xy_of c1 name),
                         scatter_s = Some s, scatter_color = Some color\<rparr>]\<rparr>\<rparr>)
                 i rest))"

definition plot_point :: "scatter_chart \<Rightarrow> nat \<Rightarrow> scatter_chart outcome" where
  "plot_point c i =
     (case set_x_y_limits c i of
        (Some e, c1) \<Rightarrow> (Some e, c1)
      | (None, c1) \<Rightarrow> plot_point_loop c1 i (zip (data_cols c1) (colors c1)))"

subsection \<open>The animation functions\<close>

text \<open>
  \<^verbatim>\<open>for line in self.ax.lines: line.remove()\<close> removes from the list it walks: the
  walk skips the element that moves into the place of the one just removed.
\<close>

fun remove_iterating :: "'a list \<Rightarrow> 'a list" where
  "remove_iterating [] = []"
| "remove_iterating [x] = []"
| "remove_iterating (x # y # zs) = y # remove_iterating zs"

definition line_anim_func :: "line_chart \<Rightarrow> nat \<Rightarrow> line_chart outcome" where
  "line_anim_func c i =
     (case plot_line (c\<lparr>ax := (ax c)\<lparr>lines := remove_iterating (lines (ax c))\<rparr>\<rparr>) i of
        (Some e, c1) \<Rightarrow> (Some e, c1)
      | (None, c1) \<Rightarrow> if truthy_str (period_fmt c1) then show_period c1 i else (None, c1))"

definition line_init_func :: "line_chart \<Rightarrow> line_chart" where
  "line_init_func c =
     c\<lparr>ax := (ax c)\<lparr>lines := lines (ax c) @
        [\<lparr>plot_x = [], plot_y = [], plot_width = line_width c, plot_color = None\<rparr>]\<rparr>\<rparr>"

definition scatter_anim_func :: "scatter_chart \<Rightarrow> nat \<Rightarrow> scatter_chart outcome" where
  "scatter_anim_func c i =
     (case plot_point c i of
        (Some e, c1) \<Rightarrow> (Some e, c1)
      | (None, c1) \<Rightarrow> if truthy_str (period_fmt c1) then show_period c1 i else (None, c1))"

definition scatter_init_func :: "scatter_chart \<Rightarrow> scatter_chart" where
  "scatter_init_func c =
     c\<lparr>ax := (ax c)\<lparr>collections := collections (ax c) @
        [\<lparr>scatter_x = [], scatter_y = [], scatter_s = None, scatter_color = None\<rparr>]\<rparr>\<rparr>"

subsection \<open>Animation Driver\<close>

definition get_frames :: "'a base_chart_scheme \<Rightarrow> nat list" where
  "get_frames c = [0..<nrows (df c)]"

text \<open>
  \<^verbatim>\<open>FuncAnimation\<close>, when the animation is saved, calls \<^verbatim>\<open>init_func\<close> once and then
  \<^verbatim>\<open>anim_func\<close> on each frame of \<^verbatim>\<open>get_frames()\<close> in order; an exception ends it.
\<close>

fun run_frames :: "('c \<Rightarrow> nat \<Rightarrow> 'c outcome) \<Rightarrow> 'c \<Rightarrow> nat list \<Rightarrow> 'c outcome" where
  "run_frames anim_func c [] = (None, c)"
| "run_frames anim_func c (i # frames) =
     (case anim_func c i of
        (Some e, c1) \<Rightarrow> (Some e, c1)
      | (None, c1) \<Rightarrow> run_frames anim_func c1 frames)"

definition line_animation :: "line_chart \<Rightarrow> line_chart outcome" where
  "line_animation c = run_frames line_anim_func (line_init_func c) (get_frames c)"

definition scatter_animation :: "scatter_chart \<Rightarrow> scatter_chart outcome" where
  "scatter_animation c = run_frames scatter_anim_func (scatter_init_func c) (get_frames c)"

subsection \<open>Construction: \<^verbatim>\<open>__attrs_post_init__\<close>\<close>

text \<open>
  The data columns are taken from the table as given; the table is then renamed and
  interpolated, and the axes are created. The subclasses add the empty lists of every
  data column.
\<close>

definition post_init ::
  "dataframe \<Rightarrow> bool \<Rightarrow> nat \<Rightarrow> string option \<Rightarrow> string option \<Rightarrow> string list \<Rightarrow> period_label_arg
     \<Rightarrow> error + base_chart" where
  "post_init d ip s fmt ttl cols pl =
     (case get_data_cols d of
        Inl e \<Rightarrow> Inl e
      | Inr dc \<Rightarrow>
          (case rename_data_columns d of
             Inl e \<Rightarrow> Inl e
           | Inr d1 \<Rightarrow>
               (case get_interpolated_df d1 s ip of
                  Inl e \<Rightarrow> Inl e
                | Inr d2 \<Rightarrow>
                    Inr \<lparr>df = d2, interpolate_period = ip, steps_per_period = s, period_fmt = fmt,
                         chart_title = ttl, colors = cols, period_label = pl, data_cols = dc,
                         ax = new_axes\<lparr>ax_title := (if truthy_str ttl then ttl else None)\<rparr>,
                         xy = []\<rparr>)))"

definition empty_xy :: "string list \<Rightarrow> (string \<times> scalar list \<times> scalar list) list" where
  "empty_xy names = fold (\<lambda>name. AList.update name ([], [])) names []"

definition line_chart_init ::
  "dataframe \<Rightarrow> bool \<Rightarrow> nat \<Rightarrow> string option \<Rightarrow> string option \<Rightarrow> string list \<Rightarrow> period_label_arg
     \<Rightarrow> nat \<Rightarrow> error + line_chart" where
  "line_chart_init d ip s fmt ttl cols pl lw =
     (case post_init d ip s fmt ttl cols pl of
        Inl e \<Rightarrow> Inl e
      | Inr b \<Rightarrow> Inr (base_chart.extend (b\<lparr>xy := empty_xy (data_cols b)\<rparr>) (line_chart.fields lw)))"

definition scatter_chart_init ::
  "dataframe \<Rightarrow> bool \<Rightarrow> nat \<Rightarrow> string option \<Rightarrow> string option \<Rightarrow> string list \<Rightarrow> period_label_arg
     \<Rightarrow> size_arg \<Rightarrow> error + scatter_chart" where
  "scatter_chart_init d ip s fmt ttl cols pl sz =
     (case post_init d ip s fmt ttl cols pl of
        Inl e \<Rightarrow> Inl e
      | Inr b \<Rightarrow> Inr (base_chart.extend (b\<lparr>xy := empty_xy (data_cols b)\<rparr>) (scatter_chart.fields sz [])))"

section \<open>Example tables and charts\<close>

text \<open>Two numeric columns that carry the same label.\<close>

definition shared_label :: dataframe where
  "shared_label =
     \<lparr>index = NumCol [Some 0],
      columns = [(StrLabel ''a'', NumCol [Some 1]), (StrLabel ''a'', NumCol [Some 2])]\<rparr>"

text \<open>A string column and two numeric columns, one of them labelled by an integer.\<close>

definition mixed :: dataframe where
  "mixed =
     \<lparr>index = NumCol [Some 0],
      columns = [(StrLabel ''name'', ObjCol [Some ''x'']), (IntLabel 7, NumCol [Some 1]),
                 (StrLabel ''b'', NumCol [Some 2])]\<rparr>"

definition only_names :: dataframe where
  "only_names = \<lparr>index = NumCol [Some 0], columns = [(StrLabel ''name'', ObjCol [Some ''x''])]\<rparr>"

text \<open>
  The yearly table of the end-to-end scenario: index 2000, 2001, 2002 and one numeric
  column 1, 2, 4. \<open>two_stamps\<close> has a datetime index: two timestamps, 100 ns apart.
\<close>

definition yearly :: dataframe where
  "yearly =
     \<lparr>index = NumCol [Some 2000, Some 2001, Some 2002],
      columns = [(StrLabel ''a'', NumCol [Some 1, Some 2, Some 4])]\<rparr>"

definition two_stamps :: dataframe where
  "two_stamps =
     \<lparr>index = TimeCol [Some 0, Some 100],
      columns = [(StrLabel ''a'', NumCol [Some 1, Some 2])]\<rparr>"

text \<open>The six rows the scenario expects of \<open>yearly\<close> with two steps per period.\<close>

definition yearly_expected :: dataframe where
  "yearly_expected =
     \<lparr>index = NumCol [Some 2000, Some (4001 / 2), Some 2001, Some (4003 / 2), Some 2002, Some 2002],
      columns = [(StrLabel ''a'', NumCol [Some 1, Some (3 / 2), Some 2, Some 3, Some 4, Some 4])]\<rparr>"

text \<open>
  The chart constructed from \<open>yearly\<close> in the stepped mode, and the one constructed from
  \<open>two_stamps\<close> in the interpolating mode.
\<close>

definition yearly_chart :: base_chart where
  "yearly_chart =
     \<lparr>df = \<lparr>index = NumCol [Some 2000, Some 2000, Some 2001, Some 2001, Some 2002],
             columns = [(StrLabel ''a'', NumCol [Some 1, Some (3 / 2), Some 2, Some 3, Some 4])]\<rparr>,
      interpolate_period = False, steps_per_period = 2, period_fmt = Some ''{x}'',
      chart_title = None, colors = [''red''], period_label = PLBool True, data_cols = [''a''],
      ax = new_axes, xy = []\<rparr>"

definition two_stamps_chart :: base_chart where
  "two_stamps_chart =
     \<lparr>df = \<lparr>index = TimeCol [Some 0, Some 50, Some 100],
             columns = [(StrLabel ''a'', NumCol [Some 1, Some (3 / 2), Some 2])]\<rparr>,
      interpolate_period = True, steps_per_period = 2, period_fmt = Some ''%Y'',
      chart_title = None, colors = [''red''], period_label = PLBool True, data_cols = [''a''],
      ax = new_axes, xy = []\<rparr>"

text \<open>
  A line chart of \<open>two_stamps\<close> with the period label switched on and no period format,
  and two scatter charts of it whose size option names a column that is not there:
  one with a colour, one with an empty colour list.
\<close>

definition two_stamps_line :: line_chart where
  "two_stamps_line =
     \<lparr>df = \<lparr>index = TimeCol [Some 0, Some 50, Some 100],
             columns = [(StrLabel ''a'', NumCol [Some 1, Some (3 / 2), Some 2])]\<rparr>,
      interpolate_period = True, steps_per_period = 2, period_fmt = None,
      chart_title = None, colors = [''red''], period_label = PLBool True, data_cols = [''a''],
      ax = new_axes, xy = [(''a'', [], [])], line_width = 2\<rparr>"

definition two_stamps_scatter :: scatter_chart where
  "two_stamps_scatter =
     \<lparr>df = \<lparr>index = TimeCol [Some 0, Some 50, Some 100],
             columns = [(StrLabel ''a'', NumCol [Some 1, Some (3 / 2), Some 2])]\<rparr>,
      interpolate_period = True, steps_per_period = 2, period_fmt = Some ''%Y'',
      chart_title = None, colors = [''red''], period_label = PLBool True, data_cols = [''a''],
      ax = new_axes, xy = [(''a'', [], [])], size_arg = SizeStr ''colA'', point_size = []\<rparr>"

definition two_stamps_colourless :: scatter_chart where
  "two_stamps_colourless = two_stamps_scatter\<lparr>colors := []\<rparr>"

text \<open>The line chart of \<open>two_stamps\<close> with the period format \<^verbatim>\<open>%Y\<close>.\<close>

definition two_stamps_dated :: line_chart where
  "two_stamps_dated = two_stamps_line\<lparr>period_fmt := Some ''%Y''\<rparr>"

text \<open>A table whose last index value is missing.\<close>

definition gapped :: dataframe where
  "gapped =
     \<lparr>index = NumCol [Some 1, None],
      columns = [(StrLabel ''a'', NumCol [Some 1, Some 2])]\<rparr>"

section \<open>Properties of the Column Selector\<close>

lemma filter_label_unique:
  "distinct (map fst cs) \<Longrightarrow> (l, c) \<in> set cs \<Longrightarrow> filter (\<lambda>lc. fst lc = l) cs = [(l, c)]"
proof (induction cs)
  case Nil
  then show ?case by simp
next
  case (Cons a cs)
  show ?case
  proof (cases "fst a = l")
    case True
    with Cons.prems have "a = (l, c)"
      by (cases a) (auto simp: rev_image_eqI)
    moreover have "filter (\<lambda>lc. fst lc = l) cs = []"
      using Cons.prems True by (auto simp: filter_empty_conv rev_image_eqI)
    ultimately show ?thesis by simp
  next
    case False
    with Cons show ?thesis by auto
  qed
qed

lemma getitem_unique:
  "distinct (labels d) \<Longrightarrow> (l, c) \<in> set (columns d) \<Longrightarrow> getitem d l = Inr (Series c)"
  by (simp add: getitem_def labels_def filter_label_unique)

lemma getitem_Series_mem:
  assumes "getitem d l = Inr (Series c)"
  shows "(l, c) \<in> set (columns d)"
proof -
  from assms have "map snd (filter (\<lambda>lc. fst lc = l) (columns d)) = [c]"
    by (auto simp: getitem_def split: list.splits)
  then obtain lc where one: "filter (\<lambda>lc. fst lc = l) (columns d) = [lc]" and c: "snd lc = c"
    by auto
  from one have "lc \<in> set (filter (\<lambda>lc. fst lc = l) (columns d))" by simp
  then have "lc \<in> set (columns d)" and "fst lc = l" by auto
  with c show ?thesis by (cases lc) auto
qed

text \<open>On a table whose labels are pairwise distinct the loop keeps the numeric columns.\<close>

lemma data_cols_loop_distinct:
  "distinct (labels d) \<Longrightarrow> set cs \<subseteq> set (columns d) \<Longrightarrow>
   data_cols_loop d (map fst cs) acc =
     Inr (acc @ map fst (filter (\<lambda>lc. is_numeric (snd lc)) cs))"
proof (induction cs arbitrary: acc)
  case Nil
  then show ?case by simp
next
  case (Cons a cs)
  obtain l c where a: "a = (l, c)" by (cases a)
  with Cons.prems have mem: "(l, c) \<in> set (columns d)" by simp
  then have "l \<in> set (labels d)" by (force simp: labels_def)
  moreover have "getitem d l = Inr (Series c)"
    using Cons.prems(1) mem by (rule getitem_unique)
  ultimately show ?case
    using Cons a by (cases "is_numeric c") simp_all
qed

lemma data_cols_loop_no_numeric:
  "\<not> list_ex (\<lambda>lc. is_numeric (snd lc)) (columns d) \<Longrightarrow>
   data_cols_loop d ls acc = Inr r \<Longrightarrow> r = acc"
proof (induction ls arbitrary: acc)
  case Nil
  then show ?case by simp
next
  case (Cons l ls)
  from Cons.prems(2) obtain sel b where
    g: "getitem d l = Inr sel" and n: "issubdtype_number sel = Inr b"
    by (auto split: if_splits sum.splits)
  from n obtain c where sel: "sel = Series c" and b: "b = is_numeric c"
    by (cases sel) auto
  from g sel have "(l, c) \<in> set (columns d)" by (simp add: getitem_Series_mem)
  with Cons.prems(1) have "\<not> is_numeric c" by (auto simp: list_ex_iff)
  with Cons.prems(2) g n sel b have "data_cols_loop d ls acc = Inr r"
    by (auto split: if_splits)
  with Cons.IH Cons.prems(1) show ?case by blast
qed

lemma data_cols_loop_found:
  "set ls \<subseteq> set (labels d) \<Longrightarrow> data_cols_loop d ls acc \<noteq> Inl (ColumnNotFound col)"
proof (induction ls arbitrary: acc)
  case Nil
  then show ?case by simp
next
  case (Cons l ls)
  then have "l \<in> set (labels d)" "set ls \<subseteq> set (labels d)" by auto
  moreover have "getitem d l \<noteq> Inl (ColumnNotFound col)"
    by (auto simp: getitem_def split: list.splits)
  moreover have "\<And>sel. issubdtype_number sel \<noteq> Inl (ColumnNotFound col)"
    subgoal for sel by (cases sel) auto
    done
  ultimately show ?case
    using Cons.IH by (auto split: sum.splits bool.splits)
qed




text \<open>
  Claim C10. The loop of \<^verbatim>\<open>get_data_cols\<close> visits the labels of the table itself, so
  the test \<^verbatim>\<open>col not in df.columns\<close> never holds: for no table and no label does
  \<^verbatim>\<open>get_data_cols\<close> raise the "Could not find ... in the columns" exception.
\<close>

theorem missing_column_branch_unreachable:
  "get_data_cols d \<noteq> Inl (ColumnNotFound col)"
  using data_cols_loop_found [of "labels d" d "[]" col]
  by (auto simp: get_data_cols_def split: sum.splits)

theorem missing_column_branch_unreachable_witness:
  "get_data_cols mixed = Inr [''7'', ''b''] \<and>
   get_data_cols mixed \<noteq> Inl (ColumnNotFound (IntLabel 7))"
  using missing_column_branch_unreachable [of mixed "IntLabel 7"]
  by (simp add: get_data_cols_def mixed_def labels_def getitem_def str_nat.simps)

section \<open>Properties of the Frame Interpolator\<close>

lemma length_reindex_vals [simp]:
  "length (reindex_vals old_index new_index xs) = length new_index"
  by (simp add: reindex_vals_def)

lemma col_len_reindex_col [simp]:
  "col_len (reindex_col old_index new_index c) = length new_index"
  by (cases c) simp_all

lemma length_ffill [simp]: "length (ffill prev xs) = length xs"
  by (induction prev xs rule: ffill.induct) simp_all

lemma length_interp [simp]: "length (interp prev ps) = length ps"
  by (induction prev ps rule: interp.induct) simp_all

lemma length_date_range [simp]: "length (date_range first lst periods) = periods"
  by (simp add: date_range_def)

lemma col_len_ffill_col [simp]: "col_len (ffill_col c) = col_len c"
  by (cases c) simp_all

lemma fill_period_col_len:
  "fill_period ip c = Inr c' \<Longrightarrow> col_len c' = col_len c"
  by (cases ip; cases c) (auto simp: interpolate_linear_def split: list.splits option.splits)

lemma interpolate_frame_index:
  "interpolate_frame ip fr = Inr fr' \<Longrightarrow> index fr' = index fr"
  by (auto simp: interpolate_frame_def split: if_splits column.splits)

lemma last_steps:
  "0 < n \<Longrightarrow> last (map (\<lambda>k. k * s) [0..<n]) = (n - 1) * s"
  by (cases n) (simp_all add: last_map)

text \<open>The number of rows of the result: \<open>(N - 1) * steps_per_period + 1\<close>.\<close>

lemma get_interpolated_df_nrows:
  assumes "get_interpolated_df d s ip = Inr d'"
  shows "0 < nrows d \<and> nrows d' = (nrows d - 1) * s + 1"
proof -
  let ?oi = "map (\<lambda>k. k * s) [0..<col_len (index d)]"
  let ?ni = "[0..<last ?oi + 1]"
  from assms have ne: "?oi \<noteq> []"
    by (auto simp: get_interpolated_df_def Let_def split: if_splits)
  then have pos: "0 < nrows d" by (simp add: nrows_def)
  from assms ne obtain p where
    p: "fill_period ip (reindex_col ?oi ?ni (index d)) = Inr p" and
    fr: "interpolate_frame ip \<lparr>index = p, columns = map (\<lambda>(l, c). (l, reindex_col ?oi ?ni c)) (columns d)\<rparr> = Inr d'"
    by (auto simp: get_interpolated_df_def Let_def split: if_splits sum.splits)
  from fr have "index d' = p" by (auto dest: interpolate_frame_index)
  moreover from p have "col_len p = length ?ni"
    by (auto dest: fill_period_col_len)
  moreover have "last ?oi = (nrows d - 1) * s"
    using pos by (simp add: last_steps nrows_def)
  ultimately show ?thesis using pos by (simp add: nrows_def)
qed


lemma distinct_steps: "0 < s \<Longrightarrow> distinct (map (\<lambda>k. k * s) [0..<n])"
  by (simp add: distinct_map inj_on_def)

lemma reindex_vals_at:
  assumes "0 < s" and "k < length xs"
  shows "reindex_vals (map (\<lambda>k. k * s) [0..<length xs]) [0..<(length xs - 1) * s + 1] xs ! (k * s)
           = xs ! k"
proof -
  let ?oi = "map (\<lambda>k. k * s) [0..<length xs]"
  from assms have "k \<le> length xs - 1" by simp
  then have "k * s \<le> (length xs - 1) * s" by (rule mult_le_mono1)
  then have in_range: "k * s < (length xs - 1) * s + 1" by linarith
  have "map_of (zip ?oi xs) (?oi ! k) = Some (xs ! k)"
    using assms by (intro map_of_zip_nth) (simp_all add: distinct_steps)
  moreover have "?oi ! k = k * s" using assms by simp
  ultimately have "map_of (zip ?oi xs) (k * s) = Some (xs ! k)" by simp
  with in_range show ?thesis
    by (simp add: reindex_vals_def del: upt_Suc)
qed

lemma reindex_vals_first:
  "0 < s \<Longrightarrow> xs \<noteq> [] \<Longrightarrow>
   reindex_vals (map (\<lambda>k. k * s) [0..<length xs]) [0..<(length xs - 1) * s + 1] xs ! 0 = xs ! 0"
  using reindex_vals_at [of s 0 xs] by simp

lemma reindex_vals_last:
  "0 < s \<Longrightarrow> xs \<noteq> [] \<Longrightarrow>
   reindex_vals (map (\<lambda>k. k * s) [0..<length xs]) [0..<(length xs - 1) * s + 1] xs
     ! ((length xs - 1) * s) = xs ! (length xs - 1)"
  using reindex_vals_at [of s "length xs - 1" xs] by simp

lemma is_object_reindex_col [simp]: "is_object (reindex_col oi ni c) = is_object c"
  by (cases c) simp_all

lemma list_all_object_reindex:
  "list_all is_object (map (snd \<circ> (\<lambda>(l, c). (l, reindex_col oi ni c))) cs)
     = list_all is_object (map snd cs)"
  by (induction cs) auto

text \<open>The stepped mode returns a table for every positive step count and non-empty table.\<close>

lemma get_interpolated_df_stepped_returns:
  assumes "0 < nrows d" and "0 < s"
    and "\<not> (columns d \<noteq> [] \<and> list_all is_object (map snd (columns d)))"
  shows "\<exists>d'. get_interpolated_df d s False = Inr d'"
proof -
  let ?oi = "map (\<lambda>k. k * s) [0..<col_len (index d)]"
  have "?oi \<noteq> []" using assms(1) by (simp add: nrows_def)
  moreover have "distinct ?oi" using assms(2) by (rule distinct_steps)
  ultimately show ?thesis
    using assms(3)
    by (simp add: get_interpolated_df_def Let_def interpolate_frame_def list_all_object_reindex
        del: upt_Suc)
qed

lemma list_ex_missing_nth:
  assumes "\<not> list_ex is_missing xs" and "i < length xs"
  shows "\<exists>v. xs ! i = Some v"
proof -
  from assms(2) have "xs ! i \<in> set xs" by simp
  with assms(1) have "\<not> is_missing (xs ! i)" by (auto simp: list_ex_iff)
  then show ?thesis by (cases "xs ! i") auto
qed

lemma list_ex_missing_map_Some [simp]: "\<not> list_ex is_missing (map Some xs)"
  by (simp add: list_ex_iff)

text \<open>So does the interpolating mode on a datetime index without NaT.\<close>

lemma get_interpolated_df_datetime_returns:
  assumes "index d = TimeCol ts" and "\<not> list_ex is_missing ts" and "ts \<noteq> []" and "0 < s"
    and "\<not> (columns d \<noteq> [] \<and> list_all is_object (map snd (columns d)))"
  shows "\<exists>d'. get_interpolated_df d s True = Inr d'"
proof -
  let ?oi = "map (\<lambda>k. k * s) [0..<length ts]"
  let ?ni = "[0..<(length ts - 1) * s + 1]"
  let ?r = "reindex_vals ?oi ?ni ts"
  have oi: "?oi \<noteq> []" "distinct ?oi" "last ?oi = (length ts - 1) * s"
    using assms(3,4) by (simp_all add: distinct_steps last_steps)
  obtain a where a: "ts ! 0 = Some a"
    using list_ex_missing_nth [OF assms(2), of 0] assms(3) by auto
  obtain b where b: "ts ! (length ts - 1) = Some b"
    using list_ex_missing_nth [OF assms(2), of "length ts - 1"] assms(3) by auto
  have len: "length ?r = (length ts - 1) * s + 1" by simp
  then have rne: "?r \<noteq> []" by (metis Suc_eq_plus1 length_0_conv nat.distinct(1))
  have "hd ?r = ?r ! 0" using rne by (simp add: hd_conv_nth)
  also have "\<dots> = Some a" using reindex_vals_first [OF assms(4,3)] a by simp
  finally have hd: "hd ?r = Some a" .
  have "last ?r = ?r ! (length ?r - 1)" using rne by (rule last_conv_nth)
  also have "\<dots> = ?r ! ((length ts - 1) * s)" unfolding len by simp
  also have "\<dots> = Some b" using reindex_vals_last [OF assms(4,3)] b by simp
  finally have lst: "last ?r = Some b" .
  obtain t r' where r: "?r = t # r'" using rne by (cases ?r) auto
  with hd have t: "t = Some a" by simp
  have fp: "fill_period True (TimeCol ?r) = Inr (TimeCol (map Some (date_range a b (length ?r))))"
    using r t lst by (simp del: length_reindex_vals)
  show ?thesis
    using oi assms(1,5) fp
    by (simp add: get_interpolated_df_def Let_def interpolate_frame_def list_all_object_reindex
        del: upt_Suc length_reindex_vals)
qed


text \<open>Filling never changes an entry that is present.\<close>

lemma ffill_keeps: "i < length xs \<Longrightarrow> xs ! i = Some v \<Longrightarrow> ffill prev xs ! i = Some v"
proof (induction prev xs arbitrary: i rule: ffill.induct)
  case (1 prev)
  then show ?case by simp
next
  case (2 prev x xs)
  then show ?case by (cases i) simp_all
next
  case (3 prev xs)
  then show ?case by (cases i) simp_all
qed

lemma interp_keeps:
  "i < length ps \<Longrightarrow> snd (ps ! i) = Some v \<Longrightarrow> interp prev ps ! i = Some v"
proof (induction prev ps arbitrary: i rule: interp.induct)
  case (1 prev)
  then show ?case by simp
next
  case (2 prev x y ps)
  then show ?case by (cases i) simp_all
next
  case (3 x ps)
  then show ?case by (cases i) simp_all
next
  case (4 x0 y0 x ps)
  then show ?case by (cases i) simp_all
qed

lemma interpolate_linear_keeps:
  "i < length ys \<Longrightarrow> ys ! i = Some v \<Longrightarrow> interpolate_linear ys ! i = Some v"
  unfolding interpolate_linear_def by (rule interp_keeps) simp_all

lemma length_interpolate_linear [simp]: "length (interpolate_linear ys) = length ys"
  by (simp add: interpolate_linear_def)

lemma trunc_div_mult: "0 < m \<Longrightarrow> trunc_div (m * x) m = x"
proof -
  assume m: "0 < m"
  have "- (m * x) = m * (- x)" by simp
  then have "(- (m * x)) div m = - x" using m by (metis nonzero_mult_div_cancel_left less_irrefl)
  then show ?thesis using m by (simp add: trunc_div_def)
qed

lemma date_range_first: "0 < n \<Longrightarrow> date_range a b n ! 0 = a"
  by (cases "n \<le> 1") (simp_all add: date_range_def trunc_div_def)

lemma date_range_last: "1 < n \<Longrightarrow> date_range a b n ! (n - 1) = b"
proof -
  assume n: "1 < n"
  then have "int (n - 1) = int n - 1" by simp
  moreover have "trunc_div ((int n - 1) * (b - a)) (int n - 1) = b - a"
    using n by (intro trunc_div_mult) simp
  ultimately show ?thesis using n by (simp add: date_range_def)
qed

text \<open>
  The first and the last row of the reindexed period column are the first and the last
  index value of the table, and a fill that keeps present entries keeps them.
\<close>

lemma reindex_then_fill_ends:
  assumes keep: "\<And>r i v. i < length r \<Longrightarrow> r ! i = Some v \<Longrightarrow> f r ! i = Some v"
    and s: "0 < s" and ne: "xs \<noteq> []" and present: "\<not> list_ex is_missing xs"
  shows "f (reindex_vals (map (\<lambda>k. k * s) [0..<length xs]) [0..<(length xs - 1) * s + 1] xs) ! 0
           = xs ! 0 \<and>
         f (reindex_vals (map (\<lambda>k. k * s) [0..<length xs]) [0..<(length xs - 1) * s + 1] xs)
           ! ((length xs - 1) * s) = xs ! (length xs - 1)"
proof -
  let ?r = "reindex_vals (map (\<lambda>k. k * s) [0..<length xs]) [0..<(length xs - 1) * s + 1] xs"
  obtain a where a: "xs ! 0 = Some a"
    using list_ex_missing_nth [OF present, of 0] ne by auto
  obtain b where b: "xs ! (length xs - 1) = Some b"
    using list_ex_missing_nth [OF present, of "length xs - 1"] ne by auto
  have "?r ! 0 = Some a" using reindex_vals_first [OF s ne] a by simp
  then have "f ?r ! 0 = Some a" by (intro keep) simp_all
  moreover have "?r ! ((length xs - 1) * s) = Some b" using reindex_vals_last [OF s ne] b by simp
  then have "f ?r ! ((length xs - 1) * s) = Some b" by (intro keep) simp_all
  ultimately show ?thesis using a b by simp
qed


lemma get_interpolated_df_ends:
  assumes res: "get_interpolated_df d s ip = Inr d'" and s: "0 < s"
    and present: "\<not> has_missing (index d)"
  shows "iloc (index d') 0 = iloc (index d) 0 \<and>
         iloc (index d') (nrows d' - 1) = iloc (index d) (nrows d - 1)"
proof -
  let ?n = "col_len (index d)"
  let ?oi = "map (\<lambda>k. k * s) [0..<?n]"
  let ?ni = "[0..<(?n - 1) * s + 1]"
  from res have rows: "0 < nrows d" "nrows d' = (nrows d - 1) * s + 1"
    using get_interpolated_df_nrows by blast+
  then have n: "0 < ?n" by (simp add: nrows_def)
  then have last_oi: "last ?oi = (?n - 1) * s" by (simp add: last_steps)
  from res n last_oi obtain p where
    p: "fill_period ip (reindex_col ?oi ?ni (index d)) = Inr p" and
    fr: "interpolate_frame ip \<lparr>index = p, columns = map (\<lambda>(l, c). (l, reindex_col ?oi ?ni c)) (columns d)\<rparr> = Inr d'"
    by (auto simp: get_interpolated_df_def Let_def split: if_splits sum.splits simp del: upt_Suc)
  from fr have idx: "index d' = p" by (auto dest: interpolate_frame_index)
  have last_row: "nrows d' - 1 = (?n - 1) * s" using rows by (simp add: nrows_def)
  have in_range: "(?n - 1) * s < (?n - 1) * s + 1" by simp
  show ?thesis
  proof (cases "index d")
    case (NumCol xs)
    with n present have xs: "xs \<noteq> []" "\<not> list_ex is_missing xs" by auto
    show ?thesis
    proof (cases ip)
      case True
      with p NumCol have "p = NumCol (interpolate_linear (reindex_vals (map (\<lambda>k. k * s) [0..<length xs]) [0..<(length xs - 1) * s + 1] xs))"
        by simp
      with reindex_then_fill_ends [of interpolate_linear s xs, OF interpolate_linear_keeps s xs]
      show ?thesis using idx last_row NumCol xs by (simp add: nrows_def)
    next
      case False
      with p NumCol have "p = NumCol (ffill None (reindex_vals (map (\<lambda>k. k * s) [0..<length xs]) [0..<(length xs - 1) * s + 1] xs))"
        by simp
      with reindex_then_fill_ends [of "ffill None" s xs, OF ffill_keeps s xs]
      show ?thesis using idx last_row NumCol xs by (simp add: nrows_def)
    qed
  next
    case (ObjCol xs)
    with n present have xs: "xs \<noteq> []" "\<not> list_ex is_missing xs" by auto
    show ?thesis
    proof (cases ip)
      case True
      with p ObjCol have "p = ObjCol (reindex_vals (map (\<lambda>k. k * s) [0..<length xs]) [0..<(length xs - 1) * s + 1] xs)"
        by simp
      with reindex_then_fill_ends [of "\<lambda>r. r" s xs, OF _ s xs]
      show ?thesis using idx last_row ObjCol xs by (simp add: nrows_def)
    next
      case False
      with p ObjCol have "p = ObjCol (ffill None (reindex_vals (map (\<lambda>k. k * s) [0..<length xs]) [0..<(length xs - 1) * s + 1] xs))"
        by simp
      with reindex_then_fill_ends [of "ffill None" s xs, OF ffill_keeps s xs]
      show ?thesis using idx last_row ObjCol xs by (simp add: nrows_def)
    qed
  next
    case (TimeCol ts)
    with n present have ts: "ts \<noteq> []" "\<not> list_ex is_missing ts" by auto
    let ?r = "reindex_vals (map (\<lambda>k. k * s) [0..<length ts]) [0..<(length ts - 1) * s + 1] ts"
    show ?thesis
    proof (cases ip)
      case False
      with p TimeCol have "p = TimeCol (ffill None ?r)"
        by simp
      with reindex_then_fill_ends [of "ffill None" s ts, OF ffill_keeps s ts]
      show ?thesis using idx last_row TimeCol ts by (simp add: nrows_def)
    next
      case True
      from reindex_then_fill_ends [of "\<lambda>r. r" s ts, OF _ s ts]
      have r0: "?r ! 0 = ts ! 0" and rl: "?r ! ((length ts - 1) * s) = ts ! (length ts - 1)"
        by simp_all
      have len: "length ?r = (length ts - 1) * s + 1" by simp
      then have rne: "?r \<noteq> []" by (metis Suc_eq_plus1 length_0_conv nat.distinct(1))
      have lastr: "last ?r = ts ! (length ts - 1)"
        using rl last_conv_nth [OF rne] unfolding len by simp
      obtain t r' where r: "?r = t # r'" using rne by (cases ?r) auto
      with r0 have t: "t = ts ! 0" by simp
      from p TimeCol True have "fill_period True (TimeCol ?r) = Inr p" by simp
      then obtain a b where a: "ts ! 0 = Some a" and b: "ts ! (length ts - 1) = Some b"
        and pp: "p = TimeCol (map Some (date_range a b (length ?r)))"
        using r t lastr by (auto split: option.splits simp del: length_reindex_vals)
      have first: "date_range a b (length ?r) ! 0 = a"
        by (rule date_range_first) simp
      have lst: "date_range a b (length ?r) ! ((length ts - 1) * s) = b"
      proof (cases "length ts = 1")
        case True
        with a b have "a = b" by simp
        with True show ?thesis by (simp add: date_range_def)
      next
        case False
        with ts(1) have "1 < length ts" by (cases ts) auto
        with s have "0 < (length ts - 1) * s" by simp
        then have "1 < length ?r" unfolding len by simp
        from date_range_last [OF this] show ?thesis unfolding len by simp
      qed
      from first lst pp show ?thesis
        using idx last_row TimeCol ts a b by (simp add: nrows_def)
    qed
  qed
qed

subsection \<open>Row count, the yearly scenario, first and last index value\<close>

lemma rename_data_columns_index:
  "rename_data_columns d = Inr d1 \<Longrightarrow> index d1 = index d"
  by (auto simp: rename_data_columns_def split: sum.splits)

lemma post_init_df:
  assumes "post_init d ip s fmt ttl cols pl = Inr b"
  shows "\<exists>d1. get_interpolated_df d1 s ip = Inr (df b) \<and> nrows d1 = nrows d"
proof -
  from assms obtain dc d1 d2 where "rename_data_columns d = Inr d1"
    and "get_interpolated_df d1 s ip = Inr d2" and "df b = d2"
    by (auto simp: post_init_def split: sum.splits)
  then show ?thesis
    using rename_data_columns_index [of d d1] by (auto simp: nrows_def)
qed

lemma yearly_stepped:
  "get_interpolated_df yearly 2 False =
     Inr \<lparr>index = NumCol [Some 2000, Some 2000, Some 2001, Some 2001, Some 2002],
          columns = [(StrLabel ''a'', NumCol [Some 1, Some (3 / 2), Some 2, Some 3, Some 4])]\<rparr>"
  by (simp add: yearly_def get_interpolated_df_def reindex_vals_def interpolate_frame_def
      nrows_def np_interp_def upt_rec)

lemma two_stamps_interpolated:
  "get_interpolated_df two_stamps 2 True =
     Inr \<lparr>index = TimeCol [Some 0, Some 50, Some 100],
          columns = [(StrLabel ''a'', NumCol [Some 1, Some (3 / 2), Some 2])]\<rparr>"
  by (simp add: two_stamps_def get_interpolated_df_def reindex_vals_def interpolate_frame_def
      nrows_def np_interp_def date_range_def trunc_div_def upt_rec)

text \<open>
  With \<^verbatim>\<open>interpolate_period\<close> set, the data step asks for time-weighted
  interpolation; on the numeric index of \<open>yearly\<close> pandas refuses it.
\<close>

lemma yearly_interpolate_period_raises:
  "get_interpolated_df yearly 2 True = Inl ValueError"
  by (simp add: yearly_def get_interpolated_df_def reindex_vals_def interpolate_frame_def
      interpolate_linear_def np_interp_def upt_rec)




text \<open>
  Claim C2, as the code has it. For \<open>yearly\<close> and two steps per period the expanded
  grid is \<^verbatim>\<open>range(5)\<close>: with \<^verbatim>\<open>interpolate_period\<close> false the result has the five
  rows with index 2000, 2000, 2001, 2001, 2002 and data 1, 1.5, 2, 3, 4; with
  \<^verbatim>\<open>interpolate_period\<close> true the period column is filled to
  2000, 2000.5, 2001, 2001.5, 2002 (lines 227-237).
\<close>

theorem yearly_scenario:
  "get_interpolated_df yearly 2 False =
     Inr \<lparr>index = NumCol [Some 2000, Some 2000, Some 2001, Some 2001, Some 2002],
          columns = [(StrLabel ''a'', NumCol [Some 1, Some (3 / 2), Some 2, Some 3, Some 4])]\<rparr> \<and>
   fill_period True (reindex_col [0, 2, 4] [0..<5] (index yearly)) =
     Inr (NumCol [Some 2000, Some (4001 / 2), Some 2001, Some (4003 / 2), Some 2002])"
  by (simp add: yearly_stepped)
     (simp add: yearly_def reindex_vals_def interpolate_linear_def np_interp_def upt_rec)

theorem yearly_scenario_witness:
  "get_interpolated_df yearly 2 False = Inr (df yearly_chart) \<and> nrows (df yearly_chart) = 5 \<and>
   iloc (index (df yearly_chart)) 4 = Inr (Num (Some 2002))"
  using yearly_scenario by (simp add: nrows_def yearly_chart_def)

text \<open>
  Claim C2 as stated fails: in neither mode is the result the six-row table with a
  repeated last row.
\<close>

theorem yearly_scenario_not_six_rows:
  "get_interpolated_df yearly 2 True \<noteq> Inr yearly_expected \<and>
   get_interpolated_df yearly 2 False \<noteq> Inr yearly_expected"
proof -
  have five: "nrows d' = 5" if "get_interpolated_df yearly 2 ip = Inr d'" for ip d'
    using get_interpolated_df_nrows [OF that] by (simp add: yearly_def nrows_def)
  show ?thesis
    using five [of True yearly_expected] five [of False yearly_expected]
    by (auto simp: yearly_expected_def nrows_def)
qed




section \<open>Properties of the Axis Scaler\<close>

lemma set_present: "set (present xs) = {v. Some v \<in> set xs}"
  by (induction xs rule: present.induct) auto

lemma min_skipna_le:
  assumes "min_skipna xs = Some m" and "Some v \<in> set xs"
  shows "m \<le> v"
proof -
  from assms(1) obtain w ws where p: "present xs = w # ws" and m: "m = fold min ws w"
    by (auto simp: min_skipna_def split: list.splits)
  from m have "m = Min (set (w # ws))" by (simp only: Min.set_eq_fold)
  moreover from assms(2) p have "v \<in> set (w # ws)" using set_present [of xs] by auto
  ultimately show ?thesis by (simp only: Min_le List.finite_set)
qed

lemma max_skipna_ge:
  assumes "max_skipna xs = Some m" and "Some v \<in> set xs"
  shows "v \<le> m"
proof -
  from assms(1) obtain w ws where p: "present xs = w # ws" and m: "m = fold max ws w"
    by (auto simp: max_skipna_def split: list.splits)
  from m have "m = Max (set (w # ws))" by (simp only: Max.set_eq_fold)
  moreover from assms(2) p have "v \<in> set (w # ws)" using set_present [of xs] by auto
  ultimately show ?thesis by (simp only: Max_ge List.finite_set)
qed

lemma min_skipna_Some:
  "Some v \<in> set xs \<Longrightarrow> \<exists>m. min_skipna xs = Some m"
  using set_present [of xs] by (cases "present xs") (auto simp: min_skipna_def)

lemma max_skipna_Some:
  "Some v \<in> set xs \<Longrightarrow> \<exists>m. max_skipna xs = Some m"
  using set_present [of xs] by (cases "present xs") (auto simp: max_skipna_def)

text \<open>A value of a numeric column in rows \<open>0, ..., i\<close> is in the frame the limits are taken over.\<close>

lemma map_filter_mem:
  "x \<in> set xs \<Longrightarrow> f x = Some y \<Longrightarrow> y \<in> set (List.map_filter f xs)"
  by (induction xs) (auto simp: map_filter_simps split: option.splits)

lemma seen_value:
  assumes "(l, NumCol ys) \<in> set (columns d)" and "k \<le> i" and "k < length ys" and "ys ! k = Some v"
  shows "take (i + 1) ys \<in> set (select_numeric d i) \<and> Some v \<in> set (take (i + 1) ys)"
proof -
  have "numeric_values (snd (l, NumCol ys)) = Some ys" by simp
  with assms(1) have "ys \<in> set (List.map_filter (\<lambda>lc. numeric_values (snd lc)) (columns d))"
    by (rule map_filter_mem)
  then have "take (i + 1) ys \<in> set (select_numeric d i)"
    by (simp add: select_numeric_def)
  moreover have "k < length (take (i + 1) ys)" using assms(2,3) by simp
  then have "take (i + 1) ys ! k \<in> set (take (i + 1) ys)" by (rule nth_mem)
  then have "Some v \<in> set (take (i + 1) ys)" using assms(2,4) by simp
  ultimately show ?thesis by simp
qed

lemma frame_min_le:
  assumes "min_skipna (map min_skipna cols) = Some lo" and "ys \<in> set cols" and "Some v \<in> set ys"
  shows "lo \<le> v"
proof -
  from assms(3) obtain m where m: "min_skipna ys = Some m" using min_skipna_Some by blast
  from m assms(3) have "m \<le> v" by (rule min_skipna_le)
  moreover from m assms(2) have "Some m \<in> set (map min_skipna cols)" by force
  with assms(1) have "lo \<le> m" by (rule min_skipna_le)
  ultimately show ?thesis by simp
qed

lemma frame_max_ge:
  assumes "max_skipna (map max_skipna cols) = Some hi" and "ys \<in> set cols" and "Some v \<in> set ys"
  shows "v \<le> hi"
proof -
  from assms(3) obtain m where m: "max_skipna ys = Some m" using max_skipna_Some by blast
  from m assms(3) have "v \<le> m" by (rule max_skipna_ge)
  moreover from m assms(2) have "Some m \<in> set (map max_skipna cols)" by force
  with assms(1) have "m \<le> hi" by (rule max_skipna_ge)
  ultimately show ?thesis by simp
qed

lemma frame_min_Some:
  assumes "ys \<in> set cols" and "Some v \<in> set ys"
  shows "\<exists>lo. min_skipna (map min_skipna cols) = Some lo"
proof -
  from assms(2) obtain m where "min_skipna ys = Some m" using min_skipna_Some by blast
  with assms(1) have "Some m \<in> set (map min_skipna cols)" by force
  then show ?thesis by (rule min_skipna_Some)
qed

lemma frame_max_Some:
  assumes "ys \<in> set cols" and "Some v \<in> set ys"
  shows "\<exists>hi. max_skipna (map max_skipna cols) = Some hi"
proof -
  from assms(2) obtain m where "max_skipna ys = Some m" using max_skipna_Some by blast
  with assms(1) have "Some m \<in> set (map max_skipna cols)" by force
  then show ?thesis by (rule max_skipna_Some)
qed

text \<open>What a call that returns has set.\<close>

lemma set_x_y_limits_returns:
  assumes "set_x_y_limits c i = (None, c')"
  shows "\<exists>ts x0 x1 lo hi.
           index (df c) = TimeCol ts \<and>
           min_skipna (take (i + 1) ts) = Some x0 \<and> max_skipna (take (i + 1) ts) = Some x1 \<and>
           min_skipna (map min_skipna (select_numeric (df c) i)) = Some lo \<and>
           max_skipna (map max_skipna (select_numeric (df c) i)) = Some hi \<and>
           xlim (ax c') = Some (x0, x1 + one_second) \<and> ylim (ax c') = Some (lo, hi)"
  using assms
  by (auto simp: set_x_y_limits_def Let_def split: column.splits option.splits)

text \<open>On an index that is not a datetime index the call raises and changes nothing.\<close>

lemma set_x_y_limits_not_datetime:
  "\<not> is_datetime (index (df c)) \<Longrightarrow> set_x_y_limits c i = (Some TypeError, c)"
  by (cases "index (df c)") (simp_all add: set_x_y_limits_def)

text \<open>The two example charts are what construction returns.\<close>

lemma two_stamps_chart_constructed:
  "post_init two_stamps True 2 (Some ''%Y'') None [''red''] (PLBool True) = Inr two_stamps_chart"
  by (simp add: post_init_def two_stamps_def get_data_cols_def labels_def getitem_def
      rename_data_columns_def get_interpolated_df_def reindex_vals_def interpolate_frame_def
      nrows_def np_interp_def date_range_def trunc_div_def upt_rec two_stamps_chart_def new_axes_def)

lemma yearly_chart_constructed:
  "post_init yearly False 2 (Some ''{x}'') None [''red''] (PLBool True) = Inr yearly_chart"
  by (simp add: post_init_def yearly_def get_data_cols_def labels_def getitem_def
      rename_data_columns_def get_interpolated_df_def reindex_vals_def interpolate_frame_def
      nrows_def np_interp_def upt_rec yearly_chart_def new_axes_def)

text \<open>
  The y view. For every chart and every frame \<open>i\<close>, when \<^verbatim>\<open>set_x_y_limits(df, i)\<close> has
  returned, the y limits \<open>[lo, hi]\<close> satisfy \<open>lo \<le> v \<le> hi\<close> for every value \<open>v\<close> that is
  present in a numeric column in one of the rows \<open>0, ..., i\<close>. The call returns whenever
  the index is a datetime index without NaT, \<open>i\<close> is in range and such a value exists.
\<close>

theorem y_limits_contain_values:
  "(set_x_y_limits c i = (None, c') \<and>
    (l, NumCol ys) \<in> set (columns (df c)) \<and> k \<le> i \<and> k < length ys \<and> ys ! k = Some v \<longrightarrow>
      (\<exists>lo hi. ylim (ax c') = Some (lo, hi) \<and> lo \<le> v \<and> v \<le> hi)) \<and>
   (index (df c) = TimeCol ts \<and> i < length ts \<and> \<not> list_ex is_missing ts \<and>
    (l, NumCol ys) \<in> set (columns (df c)) \<and> k \<le> i \<and> k < length ys \<and> ys ! k = Some v \<longrightarrow>
      fst (set_x_y_limits c i) = None)"
proof (intro conjI impI)
  assume a: "set_x_y_limits c i = (None, c') \<and>
    (l, NumCol ys) \<in> set (columns (df c)) \<and> k \<le> i \<and> k < length ys \<and> ys ! k = Some v"
  then obtain lo hi where
    lo: "min_skipna (map min_skipna (select_numeric (df c) i)) = Some lo" and
    hi: "max_skipna (map max_skipna (select_numeric (df c) i)) = Some hi" and
    y: "ylim (ax c') = Some (lo, hi)"
    using set_x_y_limits_returns [of c i c'] by blast
  from a have seen: "take (i + 1) ys \<in> set (select_numeric (df c) i)" "Some v \<in> set (take (i + 1) ys)"
    using seen_value [of l ys "df c" k i v] by simp_all
  from lo seen have "lo \<le> v" by (rule frame_min_le)
  moreover from hi seen have "v \<le> hi" by (rule frame_max_ge)
  ultimately show "\<exists>lo hi. ylim (ax c') = Some (lo, hi) \<and> lo \<le> v \<and> v \<le> hi"
    using y by blast
next
  assume a: "index (df c) = TimeCol ts \<and> i < length ts \<and> \<not> list_ex is_missing ts \<and>
    (l, NumCol ys) \<in> set (columns (df c)) \<and> k \<le> i \<and> k < length ys \<and> ys ! k = Some v"
  then have seen: "take (i + 1) ys \<in> set (select_numeric (df c) i)" "Some v \<in> set (take (i + 1) ys)"
    using seen_value [of l ys "df c" k i v] by simp_all
  from seen obtain lo where lo: "min_skipna (map min_skipna (select_numeric (df c) i)) = Some lo"
    using frame_min_Some by blast
  from seen obtain hi where hi: "max_skipna (map max_skipna (select_numeric (df c) i)) = Some hi"
    using frame_max_Some by blast
  from a have len: "0 < length ts" by auto
  then have "0 < length (take (i + 1) ts)" by simp
  then have "take (i + 1) ts ! 0 \<in> set (take (i + 1) ts)" by (rule nth_mem)
  then have "ts ! 0 \<in> set (take (i + 1) ts)" by simp
  moreover from len have "ts ! 0 \<in> set ts" by (rule nth_mem)
  with a obtain t where "ts ! 0 = Some t" by (cases "ts ! 0") (auto simp: list_ex_iff)
  ultimately have t: "Some t \<in> set (take (i + 1) ts)" by simp
  then obtain x0 x1 where "min_skipna (take (i + 1) ts) = Some x0" "max_skipna (take (i + 1) ts) = Some x1"
    using min_skipna_Some max_skipna_Some by blast
  with a lo hi show "fst (set_x_y_limits c i) = None"
    by (simp add: set_x_y_limits_def Let_def)
qed

text \<open>The theorem at frame 1 of \<open>two_stamps_chart\<close>, for the value 1.5 of row 1.\<close>

theorem y_limits_contain_values_witness:
  "fst (set_x_y_limits two_stamps_chart 1) = None \<and>
   ylim (ax (snd (set_x_y_limits two_stamps_chart 1))) = Some (1, 3 / 2) \<and>
   xlim (ax (snd (set_x_y_limits two_stamps_chart 1))) = Some (0, 50 + one_second) \<and>
   (StrLabel ''a'', NumCol [Some 1, Some (3 / 2), Some 2]) \<in> set (columns (df two_stamps_chart)) \<and>
   (1::rat) \<le> 3 / 2"
  using y_limits_contain_values [of two_stamps_chart 1 "snd (set_x_y_limits two_stamps_chart 1)"
      "StrLabel ''a''" "[Some 1, Some (3 / 2), Some 2]" 1 "3 / 2" "[Some 0, Some 50, Some 100]"]
  by (simp add: two_stamps_chart_def set_x_y_limits_def select_numeric_def List.map_filter_def
      min_skipna_def max_skipna_def new_axes_def one_second_def)

text \<open>
  Claim C4 says that after \<^verbatim>\<open>set_x_y_limits(df, i)\<close> the y limits hold every value of
  the rows \<open>0, ..., i\<close>, for every interpolated table. On the code this needs a datetime
  index: on the numeric index of \<open>yearly_chart\<close> the call at frame 2 ends in the
  TypeError of line 165 before \<^verbatim>\<open>set_ylim\<close> is reached, and the y view stays unset
  although the rows hold the values 1, 1.5 and 2.
\<close>

theorem numeric_index_y_view_unset:
  "set_x_y_limits yearly_chart 2 = (Some TypeError, yearly_chart) \<and>
   ylim (ax (snd (set_x_y_limits yearly_chart 2))) = None \<and>
   select_numeric (df yearly_chart) 2 = [[Some 1, Some (3 / 2), Some 2]]"
  by (simp add: yearly_chart_def set_x_y_limits_def new_axes_def select_numeric_def
      List.map_filter_def)

theorem numeric_index_y_view_unset_witness:
  "fst (set_x_y_limits yearly_chart 2) = Some TypeError \<and> ylim (ax yearly_chart) = None"
  using numeric_index_y_view_unset by (simp add: yearly_chart_def new_axes_def)

text \<open>
  Claim C5 says that \<^verbatim>\<open>set_x_y_limits\<close> succeeds on a numeric index as well, with the
  x view padded. On the code it does not: the chart constructed from \<open>yearly\<close> in the
  stepped mode has a numeric index, line 165 adds a \<^verbatim>\<open>Timedelta\<close> to a number, and the
  call at frame 0 ends in a TypeError with both views unset.
\<close>

theorem numeric_index_limits_raise:
  "post_init yearly False 2 (Some ''{x}'') None [''red''] (PLBool True) = Inr yearly_chart \<and>
   set_x_y_limits yearly_chart 0 = (Some TypeError, yearly_chart)"
  by (simp add: yearly_chart_constructed) (simp add: yearly_chart_def set_x_y_limits_def)

theorem numeric_index_limits_raise_witness:
  "fst (set_x_y_limits yearly_chart 0) \<noteq> None \<and> xlim (ax (snd (set_x_y_limits yearly_chart 0))) = None"
  using numeric_index_limits_raise by (simp add: yearly_chart_def new_axes_def)

section \<open>Properties of the Period Annotator\<close>

text \<open>
  Claim C9. \<^verbatim>\<open>get_period_label\<close> returns \<^verbatim>\<open>False\<close> for a falsy value (\<^verbatim>\<open>False\<close>, the
  empty dictionary), and the default style, which has the anchors \<^verbatim>\<open>"x"\<close> and \<^verbatim>\<open>"y"\<close>,
  for \<^verbatim>\<open>True\<close>. For a style dictionary (not empty) it raises its ValueError exactly
  when a required anchor key is missing, that is unless both \<^verbatim>\<open>"x"\<close> and \<^verbatim>\<open>"y"\<close> are
  keys, it raises nothing else, and otherwise it returns the dictionary unchanged.
\<close>

theorem get_period_label_cases:
  "(\<not> truthy pl \<longrightarrow> get_period_label pl = Inr (PLBool False)) \<and>
   get_period_label (PLBool True) = Inr (PLDict default_period_label) \<and>
   ''x'' \<in> set (map fst default_period_label) \<and> ''y'' \<in> set (map fst default_period_label) \<and>
   (kw \<noteq> [] \<longrightarrow>
      (get_period_label (PLDict kw) = Inl PeriodLabelKeys \<longleftrightarrow>
         ''x'' \<notin> set (map fst kw) \<or> ''y'' \<notin> set (map fst kw)) \<and>
      (''x'' \<in> set (map fst kw) \<and> ''y'' \<in> set (map fst kw) \<longrightarrow>
         get_period_label (PLDict kw) = Inr (PLDict kw)) \<and>
      (\<forall>e. get_period_label (PLDict kw) = Inl e \<longrightarrow> e = PeriodLabelKeys))"
  by (auto simp: get_period_label_def default_period_label_def)

text \<open>
  The theorem at the empty dictionary, at \<^verbatim>\<open>False\<close>, at a dictionary with \<^verbatim>\<open>"x"\<close> only,
  at one with neither anchor, and at one with both.
\<close>

theorem get_period_label_cases_witness:
  "\<not> truthy (PLDict []) \<and> get_period_label (PLDict []) = Inr (PLBool False) \<and>
   get_period_label (PLBool False) = Inr (PLBool False) \<and>
   get_period_label (PLDict [(''x'', SNum 0)]) = Inl PeriodLabelKeys \<and>
   get_period_label (PLDict [(''ha'', SStr ''left'')]) = Inl PeriodLabelKeys \<and>
   get_period_label (PLDict [(''y'', SNum 1), (''x'', SNum 0)]) = Inr (PLDict [(''y'', SNum 1), (''x'', SNum 0)])"
  using get_period_label_cases [of "PLDict []" "[(''x'', SNum 0)]"]
    get_period_label_cases [of "PLBool False" "[(''ha'', SStr ''left'')]"]
    get_period_label_cases [of "PLBool False" "[(''y'', SNum 1), (''x'', SNum 0)]"]
  by simp

section \<open>Example charts, constructed and animated\<close>

lemma two_stamps_line_constructed:
  "line_chart_init two_stamps True 2 None None [''red''] (PLBool True) 2 = Inr two_stamps_line"
  by (simp add: line_chart_init_def post_init_def two_stamps_def get_data_cols_def labels_def getitem_def
      rename_data_columns_def get_interpolated_df_def reindex_vals_def interpolate_frame_def
      nrows_def np_interp_def date_range_def trunc_div_def upt_rec two_stamps_line_def new_axes_def
      empty_xy_def base_chart.defs line_chart.defs)

lemma two_stamps_scatter_constructed:
  "scatter_chart_init two_stamps True 2 (Some ''%Y'') None [''red''] (PLBool True) (SizeStr ''colA'')
     = Inr two_stamps_scatter"
  by (simp add: scatter_chart_init_def post_init_def two_stamps_def get_data_cols_def labels_def getitem_def
      rename_data_columns_def get_interpolated_df_def reindex_vals_def interpolate_frame_def
      nrows_def np_interp_def date_range_def trunc_div_def upt_rec two_stamps_scatter_def new_axes_def
      empty_xy_def base_chart.defs scatter_chart.defs)

lemma two_stamps_colourless_constructed:
  "scatter_chart_init two_stamps True 2 (Some ''%Y'') None [] (PLBool True) (SizeStr ''colA'')
     = Inr two_stamps_colourless"
  by (simp add: scatter_chart_init_def post_init_def two_stamps_def get_data_cols_def labels_def getitem_def
      rename_data_columns_def get_interpolated_df_def reindex_vals_def interpolate_frame_def
      nrows_def np_interp_def date_range_def trunc_div_def upt_rec two_stamps_scatter_def new_axes_def
      empty_xy_def base_chart.defs scatter_chart.defs two_stamps_colourless_def)

text \<open>The definitions a frame of an example chart is evaluated with.\<close>

lemmas eval_defs =
  get_frames_def nrows_def upt_rec set_x_y_limits_def min_skipna_def max_skipna_def
  select_numeric_def List.map_filter_def one_second_def append_xy_def getitem_def xy_of_def
  show_period_def period_string_def get_period_label_def default_period_label_def new_axes_def

section \<open>Properties of the scatter renderer\<close>

text \<open>What the steps before the size check leave alone.\<close>

lemma set_x_y_limits_scatter:
  fixes c :: scatter_chart
  assumes "set_x_y_limits c i = (r, c1)"
  shows "size_arg c1 = size_arg c \<and> data_cols c1 = data_cols c \<and> colors c1 = colors c \<and>
         collections (ax c1) = collections (ax c)"
  using assms
  by (auto simp: set_x_y_limits_def Let_def split: column.splits option.splits)

lemma append_xy_scatter:
  fixes c :: scatter_chart
  assumes "append_xy c i name = (r, c1)"
  shows "size_arg c1 = size_arg c \<and> data_cols c1 = data_cols c \<and> ax c1 = ax c"
  using assms
  by (auto simp: append_xy_def Let_def split: option.splits sum.splits selection.splits)

lemma plot_point_loop_size_missing:
  assumes "size_arg c = SizeStr sz" and "sz \<notin> set (data_cols c)"
  shows "\<exists>e c'. plot_point_loop c i ((name, color) # rest) = (Some e, c') \<and>
           collections (ax c') = collections (ax c) \<and>
           (\<forall>c1. append_xy c i name = (None, c1) \<longrightarrow> e = SizeNotPresent sz \<and> c' = c1)"
proof (cases "append_xy c i name")
  case (Pair r c1)
  note frame = append_xy_scatter [OF Pair]
  show ?thesis
  proof (cases r)
    case None
    with assms frame have "size_value c1 i = Inl (SizeNotPresent sz)"
      by (simp add: size_value_def)
    with Pair None frame show ?thesis by simp
  next
    case (Some e)
    with Pair frame show ?thesis by simp
  qed
qed

lemma plot_point_size_missing:
  assumes "size_arg c = SizeStr sz" and "sz \<notin> set (data_cols c)"
    and "data_cols c \<noteq> []" and "colors c \<noteq> []"
  shows "(\<exists>e. fst (plot_point c i) = Some e) \<and>
         collections (ax (snd (plot_point c i))) = collections (ax c) \<and>
         (\<forall>c1 c2. set_x_y_limits c i = (None, c1) \<and> append_xy c1 i (hd (data_cols c)) = (None, c2) \<longrightarrow>
            plot_point c i = (Some (SizeNotPresent sz), c2))"
proof (cases "set_x_y_limits c i")
  case (Pair r c1)
  note frame = set_x_y_limits_scatter [OF Pair]
  show ?thesis
  proof (cases r)
    case (Some e)
    with Pair frame show ?thesis by (simp add: plot_point_def)
  next
    case None
    from assms(3,4) frame obtain name color rest where
      z: "zip (data_cols c1) (colors c1) = (name, color) # rest" and name: "name = hd (data_cols c)"
      by (cases "data_cols c"; cases "colors c") auto
    from assms(1,2) frame have "size_arg c1 = SizeStr sz" "sz \<notin> set (data_cols c1)" by simp_all
    from plot_point_loop_size_missing [OF this, of i name color rest]
    obtain e c' where loop: "plot_point_loop c1 i ((name, color) # rest) = (Some e, c')"
      and coll: "collections (ax c') = collections (ax c1)"
      and descr: "\<forall>c2. append_xy c1 i name = (None, c2) \<longrightarrow> e = SizeNotPresent sz \<and> c' = c2"
      by blast
    from Pair None z loop have pp: "plot_point c i = (Some e, c')"
      by (simp add: plot_point_def)
    with coll frame descr name Pair None show ?thesis by auto
  qed
qed

text \<open>The animation of such a chart ends at its first frame, with only the empty scatter of \<^verbatim>\<open>init_func\<close>.\<close>

lemma scatter_animation_size_missing:
  assumes "size_arg c = SizeStr sz" and "sz \<notin> set (data_cols c)"
    and "data_cols c \<noteq> []" and "colors c \<noteq> []" and "0 < nrows (df c)"
  shows "\<exists>e c'. scatter_animation c = (Some e, c') \<and>
           collections (ax c') = collections (ax c) @
             [\<lparr>scatter_x = [], scatter_y = [], scatter_s = None, scatter_color = None\<rparr>]"
proof -
  let ?c0 = "scatter_init_func c"
  have c0: "size_arg ?c0 = SizeStr sz" "sz \<notin> set (data_cols ?c0)" "data_cols ?c0 \<noteq> []" "colors ?c0 \<noteq> []"
    using assms by (simp_all add: scatter_init_func_def)
  from plot_point_size_missing [OF c0, of 0]
  obtain e where e: "fst (plot_point ?c0 0) = Some e"
    and coll: "collections (ax (snd (plot_point ?c0 0))) = collections (ax ?c0)"
    by blast
  from assms(5) obtain rest where frames: "get_frames c = 0 # rest"
    by (auto simp: get_frames_def upt_rec)
  from e have "scatter_anim_func ?c0 0 = (Some e, snd (plot_point ?c0 0))"
    by (cases "plot_point ?c0 0") (simp add: scatter_anim_func_def)
  with frames have "scatter_animation c = (Some e, snd (plot_point ?c0 0))"
    by (simp add: scatter_animation_def)
  with coll show ?thesis by (simp add: scatter_init_func_def)
qed

text \<open>
  Claim C8, as the code has it. For every scatter chart with a data column and a
  colour whose size option is a string that is not among the data columns, every call
  of \<^verbatim>\<open>plot_point\<close> raises before it reaches \<^verbatim>\<open>ax.scatter\<close>: no frame draws a point, and
  the animation ends at its first frame with only the empty scatter of \<^verbatim>\<open>init_func\<close> on
  the axes. The exception is the ValueError that names the size column whenever the
  statements before the check (\<^verbatim>\<open>set_x_y_limits\<close> and the two appends of the first data
  column) have succeeded.
\<close>

theorem size_column_not_a_data_column:
  assumes "size_arg c = SizeStr sz" and "sz \<notin> set (data_cols c)"
    and "data_cols c \<noteq> []" and "colors c \<noteq> []"
  shows "(\<exists>e. fst (plot_point c i) = Some e) \<and>
         collections (ax (snd (plot_point c i))) = collections (ax c) \<and>
         (\<forall>c1 c2. set_x_y_limits c i = (None, c1) \<and> append_xy c1 i (hd (data_cols c)) = (None, c2) \<longrightarrow>
            plot_point c i = (Some (SizeNotPresent sz), c2)) \<and>
         (0 < nrows (df c) \<longrightarrow>
            (\<exists>e c'. scatter_animation c = (Some e, c') \<and>
               collections (ax c') = collections (ax c) @
                 [\<lparr>scatter_x = [], scatter_y = [], scatter_s = None, scatter_color = None\<rparr>]))"
  using plot_point_size_missing [OF assms, of i] scatter_animation_size_missing [OF assms]
  by blast

text \<open>The theorem at \<open>two_stamps_scatter\<close>, frame 0.\<close>

theorem size_column_not_a_data_column_witness:
  "size_arg two_stamps_scatter = SizeStr ''colA'' \<and> ''colA'' \<notin> set (data_cols two_stamps_scatter) \<and>
   data_cols two_stamps_scatter \<noteq> [] \<and> colors two_stamps_scatter \<noteq> [] \<and>
   0 < nrows (df two_stamps_scatter) \<and>
   fst (plot_point two_stamps_scatter 0) = Some (SizeNotPresent ''colA'') \<and>
   collections (ax (snd (plot_point two_stamps_scatter 0))) = [] \<and>
   fst (scatter_animation two_stamps_scatter) = Some (SizeNotPresent ''colA'') \<and>
   collections (ax (snd (scatter_animation two_stamps_scatter))) =
     [\<lparr>scatter_x = [], scatter_y = [], scatter_s = None, scatter_color = None\<rparr>]"
  using size_column_not_a_data_column [of two_stamps_scatter "''colA''" 0]
  by (simp add: two_stamps_scatter_def plot_point_def eval_defs size_value_def
      scatter_animation_def scatter_init_func_def scatter_anim_func_def)

text \<open>
  Claim C8 as stated, for every scatter chart, fails for an empty colour list: the loop
  over \<^verbatim>\<open>zip(self.data_cols, self.colors)\<close> has no round, the size option is never
  looked at, and all three frames of \<open>two_stamps_colourless\<close> are rendered without an
  exception.
\<close>

theorem colourless_scatter_animation:
  "scatter_chart_init two_stamps True 2 (Some ''%Y'') None [] (PLBool True) (SizeStr ''colA'')
     = Inr two_stamps_colourless \<and>
   size_arg two_stamps_colourless = SizeStr ''colA'' \<and> ''colA'' \<notin> set (data_cols two_stamps_colourless) \<and>
   get_frames two_stamps_colourless = [0, 1, 2] \<and>
   fst (scatter_animation two_stamps_colourless) = None"
  by (simp add: two_stamps_colourless_constructed)
     (simp add: two_stamps_colourless_def two_stamps_scatter_def scatter_animation_def scatter_init_func_def
       scatter_anim_func_def plot_point_def eval_defs)

section \<open>The period label over an animation\<close>

lemma set_x_y_limits_label:
  assumes "set_x_y_limits c i = (r, c1)"
  shows "df c1 = df c \<and> period_fmt c1 = period_fmt c \<and> period_label c1 = period_label c \<and>
         texts (ax c1) = texts (ax c)"
  using assms
  by (auto simp: set_x_y_limits_def Let_def split: column.splits option.splits)

lemma append_xy_label:
  assumes "append_xy c i name = (r, c1)"
  shows "df c1 = df c \<and> period_fmt c1 = period_fmt c \<and> period_label c1 = period_label c \<and>
         ax c1 = ax c"
  using assms
  by (auto simp: append_xy_def Let_def split: option.splits sum.splits selection.splits)

lemma plot_line_loop_label:
  "plot_line_loop c i ncs = (r, c1) \<Longrightarrow>
   df c1 = df c \<and> period_fmt c1 = period_fmt c \<and> period_label c1 = period_label c \<and>
   texts (ax c1) = texts (ax c)"
proof (induction c i ncs rule: plot_line_loop.induct)
  case (1 c i)
  then show ?case by simp
next
  case (2 c i name color rest)
  obtain r0 c0 where a: "append_xy c i name = (r0, c0)" by (cases "append_xy c i name")
  note frame = append_xy_label [OF a]
  show ?case
  proof (cases r0)
    case (Some e)
    with a "2.prems" frame show ?thesis by simp
  next
    case None
    with a "2.prems" "2.IH" frame show ?thesis by simp
  qed
qed

lemma plot_line_label:
  assumes "plot_line c i = (r, c1)"
  shows "df c1 = df c \<and> period_fmt c1 = period_fmt c \<and> period_label c1 = period_label c \<and>
         texts (ax c1) = texts (ax c)"
proof (cases "set_x_y_limits c i")
  case (Pair r0 c0)
  note frame = set_x_y_limits_label [OF Pair]
  show ?thesis
  proof (cases r0)
    case (Some e)
    with Pair assms frame show ?thesis by (simp add: plot_line_def)
  next
    case None
    with Pair assms have "plot_line_loop c0 i (zip (data_cols c0) (colors c0)) = (r, c1)"
      by (simp add: plot_line_def)
    from plot_line_loop_label [OF this] frame show ?thesis by simp
  qed
qed

text \<open>\<^verbatim>\<open>show_period\<close> on a chart whose label is switched on, when it returns.\<close>

lemma show_period_returns:
  assumes "show_period c i = (None, c1)" and "truthy (period_label c)"
  shows "df c1 = df c \<and> period_fmt c1 = period_fmt c \<and> period_label c1 = period_label c \<and>
         (\<exists>s. period_string c i = Inr s \<and>
            (if texts (ax c) = []
             then \<exists>kw. get_period_label (period_label c) = Inr (PLDict kw) \<and>
                    texts (ax c1) = [\<lparr>text_s = s, text_kwargs = kw\<rparr>]
             else texts (ax c1) = (texts (ax c))[0 := (texts (ax c) ! 0)\<lparr>text_s := s\<rparr>]))"
  using assms
  by (auto simp: show_period_def Let_def split: sum.splits period_label_arg.splits if_splits)

lemma plot_point_loop_label:
  "plot_point_loop c i ncs = (r, c1) \<Longrightarrow>
   df c1 = df c \<and> period_fmt c1 = period_fmt c \<and> period_label c1 = period_label c \<and>
   texts (ax c1) = texts (ax c)"
proof (induction c i ncs rule: plot_point_loop.induct)
  case (1 c i)
  then show ?case by simp
next
  case (2 c i name color rest)
  obtain r0 c0 where a: "append_xy c i name = (r0, c0)" by (cases "append_xy c i name")
  note frame = append_xy_label [OF a]
  show ?case
  proof (cases r0)
    case (Some e)
    with a "2.prems" frame show ?thesis by simp
  next
    case None
    show ?thesis
    proof (cases "size_value c0 i")
      case (Inl e)
      with a None "2.prems" frame show ?thesis by simp
    next
      case (Inr sv)
      with a None "2.prems" "2.IH" frame show ?thesis by simp
    qed
  qed
qed

lemma plot_point_label:
  assumes "plot_point c i = (r, c1)"
  shows "df c1 = df c \<and> period_fmt c1 = period_fmt c \<and> period_label c1 = period_label c \<and>
         texts (ax c1) = texts (ax c)"
proof (cases "set_x_y_limits c i")
  case (Pair r0 c0)
  note frame = set_x_y_limits_label [OF Pair]
  show ?thesis
  proof (cases r0)
    case (Some e)
    with Pair assms frame show ?thesis by (simp add: plot_point_def)
  next
    case None
    with Pair assms have "plot_point_loop c0 i (zip (data_cols c0) (colors c0)) = (r, c1)"
      by (simp add: plot_point_def)
    from plot_point_loop_label [OF this] frame show ?thesis by simp
  qed
qed

text \<open>
  One frame of either chart, when it returns and the label and the format are set:
  the first call of \<^verbatim>\<open>show_period\<close> creates the annotation, a later one sets its text.
\<close>

lemma line_anim_func_returns:
  assumes "line_anim_func c i = (None, c1)" and "truthy (period_label c)" and "truthy_str (period_fmt c)"
  shows "df c1 = df c \<and> period_fmt c1 = period_fmt c \<and> period_label c1 = period_label c \<and>
         (\<exists>s. period_string c i = Inr s \<and>
            (if texts (ax c) = []
             then \<exists>kw. get_period_label (period_label c) = Inr (PLDict kw) \<and>
                    texts (ax c1) = [\<lparr>text_s = s, text_kwargs = kw\<rparr>]
             else texts (ax c1) = (texts (ax c))[0 := (texts (ax c) ! 0)\<lparr>text_s := s\<rparr>]))"
proof -
  let ?c = "c\<lparr>ax := (ax c)\<lparr>lines := remove_iterating (lines (ax c))\<rparr>\<rparr>"
  obtain r0 c0 where p: "plot_line ?c i = (r0, c0)" by (cases "plot_line ?c i")
  from plot_line_label [OF p]
  have frame: "df c0 = df c" "period_fmt c0 = period_fmt c" "period_label c0 = period_label c"
    "texts (ax c0) = texts (ax c)" by simp_all
  from assms(1) p have r0: "r0 = None" by (cases r0) (simp_all add: line_anim_func_def)
  with assms p frame have sp: "show_period c0 i = (None, c1)"
    by (simp add: line_anim_func_def)
  have ps: "period_string c0 i = period_string c i"
    unfolding period_string_def frame(1,2) by (rule refl)
  from assms(2) frame have "truthy (period_label c0)" by simp
  from show_period_returns [OF sp this] show ?thesis
    unfolding frame ps .
qed

lemma scatter_anim_func_returns:
  assumes "scatter_anim_func c i = (None, c1)" and "truthy (period_label c)" and "truthy_str (period_fmt c)"
  shows "df c1 = df c \<and> period_fmt c1 = period_fmt c \<and> period_label c1 = period_label c \<and>
         (\<exists>s. period_string c i = Inr s \<and>
            (if texts (ax c) = []
             then \<exists>kw. get_period_label (period_label c) = Inr (PLDict kw) \<and>
                    texts (ax c1) = [\<lparr>text_s = s, text_kwargs = kw\<rparr>]
             else texts (ax c1) = (texts (ax c))[0 := (texts (ax c) ! 0)\<lparr>text_s := s\<rparr>]))"
proof -
  obtain r0 c0 where p: "plot_point c i = (r0, c0)" by (cases "plot_point c i")
  from plot_point_label [OF p]
  have frame: "df c0 = df c" "period_fmt c0 = period_fmt c" "period_label c0 = period_label c"
    "texts (ax c0) = texts (ax c)" by simp_all
  from assms(1) p have r0: "r0 = None" by (cases r0) (simp_all add: scatter_anim_func_def)
  with assms p frame have sp: "show_period c0 i = (None, c1)"
    by (simp add: scatter_anim_func_def)
  have ps: "period_string c0 i = period_string c i"
    unfolding period_string_def frame(1,2) by (rule refl)
  from assms(2) frame have "truthy (period_label c0)" by simp
  from show_period_returns [OF sp this] show ?thesis
    unfolding frame ps .
qed

text \<open>
  Over a run of frames that all return: one annotation, with the style the first frame
  gave it and the text of the last frame run.
\<close>

lemma run_frames_single_text:
  fixes f :: "'a base_chart_scheme \<Rightarrow> nat \<Rightarrow> ('a base_chart_scheme) outcome"
  assumes step: "\<And>c j c1. f c j = (None, c1) \<Longrightarrow> truthy (period_label c) \<Longrightarrow> truthy_str (period_fmt c) \<Longrightarrow>
      df c1 = df c \<and> period_fmt c1 = period_fmt c \<and> period_label c1 = period_label c \<and>
      (\<exists>s. period_string c j = Inr s \<and>
         (if texts (ax c) = []
          then \<exists>kw. get_period_label (period_label c) = Inr (PLDict kw) \<and>
                 texts (ax c1) = [\<lparr>text_s = s, text_kwargs = kw\<rparr>]
          else texts (ax c1) = (texts (ax c))[0 := (texts (ax c) ! 0)\<lparr>text_s := s\<rparr>]))"
    and run: "run_frames f c (frames @ [i]) = (None, c')"
    and on: "truthy (period_label c)" "truthy_str (period_fmt c)"
    and kw: "get_period_label (period_label c) = Inr (PLDict kw)"
    and start: "texts (ax c) = [] \<or> (\<exists>s0. texts (ax c) = [\<lparr>text_s = s0, text_kwargs = kw\<rparr>])"
  shows "\<exists>s. period_string c i = Inr s \<and> texts (ax c') = [\<lparr>text_s = s, text_kwargs = kw\<rparr>]"
  using run on kw start
proof (induction frames arbitrary: c)
  case Nil
  then obtain c1 where one: "f c i = (None, c1)" and c1: "c1 = c'"
    by (auto split: prod.splits option.splits)
  from step [OF one Nil.prems(2,3)] Nil.prems(4,5) c1
  show ?case by auto
next
  case (Cons j frames)
  from Cons.prems(1) obtain c1 where one: "f c j = (None, c1)"
    and rest: "run_frames f c1 (frames @ [i]) = (None, c')"
    by (auto split: prod.splits option.splits)
  from step [OF one Cons.prems(2,3)] Cons.prems(4,5)
  have same: "df c1 = df c" "period_fmt c1 = period_fmt c" "period_label c1 = period_label c"
    and single: "\<exists>s0. texts (ax c1) = [\<lparr>text_s = s0, text_kwargs = kw\<rparr>]"
    by auto
  have "period_string c1 i = period_string c i"
    unfolding period_string_def same(1,2) by (rule refl)
  moreover have "\<exists>s. period_string c1 i = Inr s \<and> texts (ax c') = [\<lparr>text_s = s, text_kwargs = kw\<rparr>]"
    using rest Cons.prems(2,3,4) same single by (intro Cons.IH) simp_all
  ultimately show ?case by simp
qed

text \<open>The style comes from the first frame: a run that returns has passed \<^verbatim>\<open>get_period_label\<close>.\<close>

lemma run_frames_label_style:
  fixes f :: "'a base_chart_scheme \<Rightarrow> nat \<Rightarrow> ('a base_chart_scheme) outcome"
  assumes step: "\<And>c j c1. f c j = (None, c1) \<Longrightarrow> truthy (period_label c) \<Longrightarrow> truthy_str (period_fmt c) \<Longrightarrow>
      df c1 = df c \<and> period_fmt c1 = period_fmt c \<and> period_label c1 = period_label c \<and>
      (\<exists>s. period_string c j = Inr s \<and>
         (if texts (ax c) = []
          then \<exists>kw. get_period_label (period_label c) = Inr (PLDict kw) \<and>
                 texts (ax c1) = [\<lparr>text_s = s, text_kwargs = kw\<rparr>]
          else texts (ax c1) = (texts (ax c))[0 := (texts (ax c) ! 0)\<lparr>text_s := s\<rparr>]))"
    and run: "run_frames f c (frames @ [i]) = (None, c')"
    and on: "truthy (period_label c)" "truthy_str (period_fmt c)"
    and start: "texts (ax c) = []"
  shows "\<exists>kw s. get_period_label (period_label c) = Inr (PLDict kw) \<and>
           period_string c i = Inr s \<and> texts (ax c') = [\<lparr>text_s = s, text_kwargs = kw\<rparr>]"
proof -
  obtain j rest where fr: "frames @ [i] = j # rest" by (cases frames) auto
  with run obtain c1 where one: "f c j = (None, c1)"
    by (auto split: prod.splits option.splits)
  from step [OF one on] start obtain kw where kw: "get_period_label (period_label c) = Inr (PLDict kw)"
    by auto
  from run_frames_single_text [of f, OF step run on kw] start kw show ?thesis by blast
qed

text \<open>Without a period format neither animation function touches \<^verbatim>\<open>ax.texts\<close>.\<close>

lemma run_frames_no_format:
  fixes f :: "'a base_chart_scheme \<Rightarrow> nat \<Rightarrow> ('a base_chart_scheme) outcome"
  assumes step: "\<And>c j r c1. f c j = (r, c1) \<Longrightarrow> \<not> truthy_str (period_fmt c) \<Longrightarrow>
      period_fmt c1 = period_fmt c \<and> texts (ax c1) = texts (ax c)"
  shows "run_frames f c frames = (r, c') \<Longrightarrow> \<not> truthy_str (period_fmt c) \<Longrightarrow>
         texts (ax c') = texts (ax c)"
proof (induction frames arbitrary: c)
  case Nil
  then show ?case by simp
next
  case (Cons j frames)
  obtain r1 c1 where one: "f c j = (r1, c1)" by (cases "f c j")
  from step [OF one Cons.prems(2)]
  have same: "period_fmt c1 = period_fmt c" "texts (ax c1) = texts (ax c)" by simp_all
  show ?case
  proof (cases r1)
    case (Some e)
    with one Cons.prems(1) same show ?thesis by simp
  next
    case None
    with one Cons.prems(1) have "run_frames f c1 frames = (r, c')" by simp
    from Cons.IH [OF this] Cons.prems(2) same show ?thesis by simp
  qed
qed

lemma line_anim_func_no_format:
  assumes "line_anim_func c j = (r, c1)" and "\<not> truthy_str (period_fmt c)"
  shows "period_fmt c1 = period_fmt c \<and> texts (ax c1) = texts (ax c)"
proof -
  let ?c = "c\<lparr>ax := (ax c)\<lparr>lines := remove_iterating (lines (ax c))\<rparr>\<rparr>"
  obtain r0 c0 where p: "plot_line ?c j = (r0, c0)" by (cases "plot_line ?c j")
  from plot_line_label [OF p]
  have frame: "period_fmt c0 = period_fmt c" "texts (ax c0) = texts (ax c)" by simp_all
  with assms p show ?thesis by (cases r0) (auto simp: line_anim_func_def)
qed

lemma scatter_anim_func_no_format:
  assumes "scatter_anim_func c j = (r, c1)" and "\<not> truthy_str (period_fmt c)"
  shows "period_fmt c1 = period_fmt c \<and> texts (ax c1) = texts (ax c)"
proof -
  obtain r0 c0 where p: "plot_point c j = (r0, c0)" by (cases "plot_point c j")
  from plot_point_label [OF p]
  have frame: "period_fmt c0 = period_fmt c" "texts (ax c0) = texts (ax c)" by simp_all
  with assms p show ?thesis by (cases r0) (auto simp: scatter_anim_func_def)
qed




end
